theory Spec2Isabelle
  imports Main "HOL-Library.Sublist"
begin

section \<open>The Claude CLI provider adapter (src/adapters/claude-cli.ts)\<close>

text \<open>
  A shallow embedding of the class \<open>ClaudeCLIAdapter\<close>. Promises are values of the type
  \<open>outcome\<close> (resolved, rejected, or never settled); everything outside the adapter
  (the spawned CLI process, \<open>execAsync\<close>, \<open>randomUUID\<close>, the clock and the logger) is a
  field of an explicit \<open>world\<close> that every operation takes and returns.
\<close>

subsection \<open>JavaScript strings\<close>

text \<open>
  A JavaScript string is modelled by the bytes of its UTF-8 encoding, a \<open>char list\<close>: an
  ASCII character is one byte, any other character two to four bytes, none of them an
  ASCII byte. \<open>String.prototype.includes\<close> is then a search for a contiguous block.

  \<open>toLowerCase\<close> maps the ASCII capitals to their small letters. Two characters outside
  ASCII have an ASCII letter in their lower case, and are mapped as JavaScript maps
  them: the Kelvin sign U+212A to \<open>k\<close>, and the dotted capital I U+0130 to \<open>i\<close> followed by
  the combining dot U+0307. Every other letter outside ASCII has a lower case outside
  ASCII, of one character for one; the model leaves those characters as they are, which
  changes neither the ASCII characters of the result nor which of them are adjacent.
\<close>

definition toLowerCase_char :: "char \<Rightarrow> char" where
  "toLowerCase_char c =
     (case map_of (zip ''ABCDEFGHIJKLMNOPQRSTUVWXYZ'' ''abcdefghijklmnopqrstuvwxyz'') c of
        Some l \<Rightarrow> l
      | None \<Rightarrow> c)"

definition kelvin_sign :: string where
  \<comment> \<open>U+212A\<close>
  "kelvin_sign = [CHR 0xE2, CHR 0x84, CHR 0xAA]"

definition capital_I_dotted :: string where
  \<comment> \<open>U+0130\<close>
  "capital_I_dotted = [CHR 0xC4, CHR 0xB0]"

definition small_i_dotted :: string where
  \<comment> \<open>\<open>i\<close> and U+0307\<close>
  "small_i_dotted = [CHR ''i'', CHR 0xCC, CHR 0x87]"

fun toLowerCase :: "string \<Rightarrow> string" where
  "toLowerCase [] = []"
| "toLowerCase (c # cs) =
     (if prefix kelvin_sign (c # cs) then CHR ''k'' # toLowerCase (drop 2 cs)
      else if prefix capital_I_dotted (c # cs) then small_i_dotted @ toLowerCase (drop 1 cs)
      else toLowerCase_char c # toLowerCase cs)"

declare toLowerCase.simps(2) [simp del]

text \<open>
  \<open>length\<close> of a JavaScript string counts UTF-16 code units: none for a continuation
  byte (\<open>10xxxxxx\<close>), two for the first byte of a four-byte character (\<open>11110xxx\<close>), one
  for any other byte. \<open>substring(0, n)\<close> keeps the characters that fit in \<open>n\<close> code units
  (where JavaScript would cut a four-byte character in two, the model drops it).
\<close>

definition utf16_units :: "char \<Rightarrow> nat" where
  "utf16_units c =
     (if digit7 c \<and> \<not> digit6 c then 0
      else if digit7 c \<and> digit6 c \<and> digit5 c \<and> digit4 c then 2
      else 1)"

definition js_length :: "string \<Rightarrow> nat" where
  "js_length s = sum_list (map utf16_units s)"

fun substring0 :: "nat \<Rightarrow> string \<Rightarrow> string" where
  "substring0 n [] = []"
| "substring0 n (c # cs) =
     (if utf16_units c = 0 then c # substring0 n cs
      else if utf16_units c \<le> n then c # substring0 (n - utf16_units c) cs
      else [])"

fun str_includes :: "string \<Rightarrow> string \<Rightarrow> bool" where
  "str_includes [] sub = (sub = [])"
| "str_includes (c # cs) sub = (prefix sub (c # cs) \<or> str_includes cs sub)"

text \<open>\<open>Array.prototype.join\<close>:\<close>

fun join :: "string list \<Rightarrow> string \<Rightarrow> string" where
  "join [] sep = []"
| "join [x] sep = x"
| "join (x # y # ys) sep = x @ sep @ join (y # ys) sep"

text \<open>\<open>String.prototype.trim\<close>, on the ASCII white space characters.\<close>

definition is_whitespace :: "char \<Rightarrow> bool" where
  "is_whitespace c = (c \<in> set [CHR '' '', CHR 0x09, CHR 0x0A, CHR 0x0B, CHR 0x0C, CHR 0x0D])"

definition trim :: "string \<Rightarrow> string" where
  "trim s = rev (dropWhile is_whitespace (rev (dropWhile is_whitespace s)))"

text \<open>The decimal text of a non-negative integer, as a template literal prints it.\<close>

definition digit_char :: "nat \<Rightarrow> char" where
  "digit_char d = ''0123456789'' ! d"

fun Number_toString :: "nat \<Rightarrow> string" where
  "Number_toString n =
     (if n < 10 then [digit_char n] else Number_toString (n div 10) @ [digit_char (n mod 10)])"

declare Number_toString.simps [simp del]

subsection \<open>Thrown values\<close>

text \<open>
  What a \<open>throw\<close> or a rejection carries: an \<open>Error\<close> object with its message, or some
  other value \<open>v\<close>, kept as the text \<open>String(v)\<close>. \<open>instanceof Error\<close> is the case
  distinction.
\<close>

datatype thrown = Error (message: string) | NonError string

definition message_or_unknown :: "thrown \<Rightarrow> string" where
  \<comment> \<open>\<open>error instanceof Error ? error.message : 'Unknown error'\<close>\<close>
  "message_or_unknown e = (case e of Error m \<Rightarrow> m | NonError _ \<Rightarrow> ''Unknown error'')"

datatype 'a outcome = Resolved 'a | Rejected thrown | Pending

subsection \<open>Constants of shared/constants\<close>

text \<open>
  Modelled from the spec: the module \<open>shared/constants\<close> is not among the sources. The
  HTTP status codes are the ones their names denote (429, 502, 503, 504 and 401); the
  defaults of the constructor, whose values nothing fixes, are parameters.
\<close>

definition HTTP_TOO_MANY_REQUESTS :: nat where "HTTP_TOO_MANY_REQUESTS = 429"
definition HTTP_BAD_GATEWAY :: nat where "HTTP_BAD_GATEWAY = 502"
definition HTTP_SERVICE_UNAVAILABLE :: nat where "HTTP_SERVICE_UNAVAILABLE = 503"
definition HTTP_GATEWAY_TIMEOUT :: nat where "HTTP_GATEWAY_TIMEOUT = 504"
definition HTTP_UNAUTHORIZED :: nat where "HTTP_UNAUTHORIZED = 401"

subsection \<open>The adapter object\<close>

record ClaudeCLIAdapterConfig =
  cfg_binary :: "string option"
  cfg_timeout :: "nat option"
  cfg_maxBuffer :: "nat option"

record ClaudeCLIAdapter =
  binary :: string
  timeout :: nat
  maxBuffer :: nat

definition supportedModels :: "string list" where
  "supportedModels =
     [''claude-3-5-sonnet-20241022'', ''claude-3-5-haiku-20241022'', ''claude-3-opus-20240229'',
      ''claude-3-sonnet-20240229'', ''claude-3-haiku-20240307'', ''sonnet'', ''haiku'', ''opus'']"

subsection \<open>isWarning, isRetryableError, enhanceError\<close>

definition isWarning :: "string \<Rightarrow> bool" where
  "isWarning stderr_text =
     (let lowerStderr = toLowerCase stderr_text in
        str_includes lowerStderr ''warning'' \<or>
        str_includes lowerStderr ''deprecated'' \<or>
        str_includes lowerStderr ''notice'')"

definition isRetryableError :: "thrown \<Rightarrow> bool" where
  "isRetryableError error =
     (case error of
        NonError _ \<Rightarrow> False
      | Error m \<Rightarrow>
          (let msg = toLowerCase m in
             str_includes msg ''timeout'' \<or>
             str_includes msg ''rate limit'' \<or>
             str_includes msg (Number_toString HTTP_TOO_MANY_REQUESTS) \<or>
             str_includes msg (Number_toString HTTP_BAD_GATEWAY) \<or>
             str_includes msg (Number_toString HTTP_SERVICE_UNAVAILABLE) \<or>
             str_includes msg (Number_toString HTTP_GATEWAY_TIMEOUT) \<or>
             str_includes msg ''econnreset'' \<or>
             str_includes msg ''enotfound'' \<or>
             str_includes msg ''exit code 1'' \<or>
             str_includes msg ''session corruption'' \<or>
             str_includes msg ''context length exceeded''))"

definition enhanceError :: "ClaudeCLIAdapter \<Rightarrow> thrown \<Rightarrow> string \<Rightarrow> thrown" where
  "enhanceError this error context =
     (let originalMessage = (case error of Error m \<Rightarrow> m | NonError s \<Rightarrow> s) in
      if str_includes originalMessage ''command not found'' then
        Error (context @ '': Claude CLI not found. Please install it with: npm install -g @anthropic-ai/claude-cli'')
      else if str_includes originalMessage ''ETIMEDOUT'' \<or> str_includes originalMessage ''timed out'' then
        Error (context @ '': Claude CLI timed out after '' @ Number_toString (timeout this) @
               ''ms. The request may be too complex or the service may be slow.'')
      else if str_includes originalMessage ''rate limit'' \<or>
              str_includes originalMessage (Number_toString HTTP_TOO_MANY_REQUESTS) then
        Error (context @ '': Claude API rate limit exceeded. Please wait and try again.'')
      else if str_includes originalMessage ''unauthorized'' \<or>
              str_includes originalMessage ''authentication'' \<or>
              str_includes originalMessage (Number_toString HTTP_UNAUTHORIZED) then
        Error (context @ '': Claude CLI authentication failed. Please run: claude auth login'')
      else if str_includes originalMessage ''session'' \<and> str_includes originalMessage ''not found'' then
        Error (context @ '': Session expired or not found. A new session will be created automatically.'')
      else if str_includes originalMessage ''model'' \<and> str_includes originalMessage ''not found'' then
        Error (context @ '': Invalid model specified. Supported models: '' @ join supportedModels '', '')
      else if str_includes originalMessage ''ENOBUFS'' \<or> str_includes originalMessage ''maxBuffer'' then
        Error (context @ '': Response too large (exceeds '' @ Number_toString (maxBuffer this) @
               '' bytes). Try reducing max_tokens or splitting the request.'')
      else Error (context @ '': '' @ originalMessage))"

subsection \<open>The world outside the adapter\<close>

text \<open>
  A spawned child process is known to the adapter through the events it emits, listed
  in the order of their delivery and each stamped with the milliseconds since the spawn:
  chunks on its two output streams, \<open>close\<close> with the exit code (\<open>null\<close> when a signal ended
  it) and \<open>error\<close> with the message of its \<open>Error\<close>. A child that could not be given a stdin
  pipe has \<open>has_stdin = False\<close>. The events stamped before the delay of the timer are
  delivered before the timer fires, the others after it.

  The adapter writes its input to the child's stdin and registers no listener for the
  \<open>error\<close> event of that stream. \<open>stdin_capacity\<close> is the number of bytes the pipe and the
  child take in before the child ends; a pipe takes at least \<open>pipe_minimum\<close> bytes at once.
  When the child ends with the write unfinished, the stream emits \<open>error\<close> (EPIPE) ahead
  of the child's \<open>close\<close>, and an \<open>error\<close> event without a listener ends the Node process.
\<close>

datatype child_event =
  Stdout_data string | Stderr_data string | Close "nat option" | Proc_error string

record child =
  has_stdin :: bool
  stdin_capacity :: nat
  events :: "(nat \<times> child_event) list"

definition pipe_minimum :: nat where
  "pipe_minimum = 512"

definition write_unfinished :: "child \<Rightarrow> string \<Rightarrow> bool" where
  "write_unfinished ch input =
     (has_stdin ch \<and> max pipe_minimum (stdin_capacity ch) < length input)"

datatype invocation = Spawn string "string list" string | Exec string

text \<open>
  A log entry keeps the logger function called, the message (for \<open>llmRequest\<close>,
  \<open>llmResponse\<close> and \<open>llmError\<close> the prompt, the response and the error text), and the
  \<open>retryable\<close> flag where the call passes one. The remaining payload, and the emoji that
  starts some messages, are left out.
\<close>

datatype log_level =
  Debug | Info | Warn | LogError | LlmRequest | LlmResponse | LlmError | LogPerformance

type_synonym log_entry = "log_level \<times> string \<times> bool option"

text \<open>
  The world: every process started so far, how the next process behaves given all that
  was started (\<open>spawn_oracle\<close> for \<open>spawn\<close>, \<open>exec_oracle\<close> for \<open>execAsync\<close>, which gives the
  time taken and either a thrown value or stdout and stderr), the values \<open>randomUUID\<close>
  returns in turn, the clock \<open>Date.now()\<close> reads, the log, the children killed (by
  their position in \<open>history\<close>), and whether the Node process running the adapter has
  died: then nothing of it runs any more, and a promise not yet settled stays \<open>Pending\<close>.
\<close>

record world =
  history :: "invocation list"
  spawn_oracle :: "invocation list \<Rightarrow> child"
  exec_oracle :: "invocation list \<Rightarrow> nat \<times> (thrown + string \<times> string)"
  uuid_source :: "nat \<Rightarrow> string"
  uuid_count :: nat
  now :: nat
  logs :: "log_entry list"
  kills :: "nat list"
  process_died :: bool

definition emit :: "log_level \<Rightarrow> string \<Rightarrow> world \<Rightarrow> world" where
  "emit l m w = w\<lparr>logs := logs w @ [(l, m, None)]\<rparr>"

definition emit_classified :: "log_level \<Rightarrow> string \<Rightarrow> bool \<Rightarrow> world \<Rightarrow> world" where
  "emit_classified l m r w = w\<lparr>logs := logs w @ [(l, m, Some r)]\<rparr>"

definition randomUUID :: "world \<Rightarrow> string \<times> world" where
  "randomUUID w = (uuid_source w (uuid_count w), w\<lparr>uuid_count := Suc (uuid_count w)\<rparr>)"

definition execAsync :: "string \<Rightarrow> world \<Rightarrow> (thrown + string \<times> string) \<times> world" where
  "execAsync command w =
     (let h = history w @ [Exec command];
          (elapsed, r) = exec_oracle w h
      in (r, w\<lparr>history := h, now := now w + elapsed\<rparr>))"

subsection \<open>The imported schema functions and defaults\<close>

text \<open>
  JavaScript numbers that the adapter only passes along (a temperature, a cost) are of
  a type \<open>'n\<close> that is left open; \<open>number_text\<close> is their conversion to a string.
\<close>

record 'n ClaudeCLIResponse =
  is_error :: bool
  session_id :: string
  total_cost_usd :: "'n option"

record TokenUsage =
  inputTokens :: nat
  outputTokens :: nat
  totalTokens :: nat

text \<open>
  The functions of \<open>schemas/claude-cli-response\<close> and the defaults of \<open>shared/constants\<close>
  are not among the sources: they are parameters. Parsing may throw; the two readers of a
  parsed response are taken to return.
\<close>

record 'n imported =
  parseClaudeCLIResponse :: "string \<Rightarrow> thrown + 'n ClaudeCLIResponse"
  extractContentFromResponse :: "'n ClaudeCLIResponse \<Rightarrow> string"
  getTokenUsage :: "'n ClaudeCLIResponse \<Rightarrow> TokenUsage"
  number_text :: "'n \<Rightarrow> string"
  CLAUDE_CLI_BINARY :: string
  DEFAULT_REQUEST_TIMEOUT_MS :: nat
  CLAUDE_CLI_MAX_BUFFER :: nat
  DEFAULT_MODEL :: string

definition new_ClaudeCLIAdapter :: "'n imported \<Rightarrow> ClaudeCLIAdapterConfig \<Rightarrow> ClaudeCLIAdapter" where
  \<comment> \<open>\<open>config.x || DEFAULT\<close>: an absent, empty or zero value gives the default\<close>
  "new_ClaudeCLIAdapter I config =
     \<lparr>binary = (case cfg_binary config of
                  Some b \<Rightarrow> if b = [] then CLAUDE_CLI_BINARY I else b
                | None \<Rightarrow> CLAUDE_CLI_BINARY I),
      timeout = (case cfg_timeout config of
                   Some t \<Rightarrow> if t = 0 then DEFAULT_REQUEST_TIMEOUT_MS I else t
                 | None \<Rightarrow> DEFAULT_REQUEST_TIMEOUT_MS I),
      maxBuffer = (case cfg_maxBuffer config of
                     Some b \<Rightarrow> if b = 0 then CLAUDE_CLI_MAX_BUFFER I else b
                   | None \<Rightarrow> CLAUDE_CLI_MAX_BUFFER I)\<rparr>"

subsection \<open>spawnWithStdin\<close>

text \<open>
  The local variables of the promise executor, the timer, the kill, and the promise
  itself: \<open>settled\<close> is \<open>Pending\<close> until \<open>resolve\<close> or \<open>reject\<close> is first called, at \<open>settled_at\<close>.
  \<open>died\<close> says that the Node process has ended; no handler runs after that.
\<close>

record spawn_state =
  stdout :: string
  stderr :: string
  finished :: bool
  timer_armed :: bool
  child_killed :: bool
  settled :: "(string \<times> string) outcome"
  settled_at :: nat
  spawn_logs :: "log_entry list"
  died :: bool

definition settle :: "nat \<Rightarrow> (string \<times> string) outcome \<Rightarrow> spawn_state \<Rightarrow> spawn_state" where
  \<comment> \<open>a promise keeps its first settlement\<close>
  "settle t r s = (if settled s = Pending then s\<lparr>settled := r, settled_at := t\<rparr> else s)"

definition timer_delay :: "nat \<Rightarrow> nat" where
  \<comment> \<open>Node's \<open>setTimeout\<close> runs a delay outside 1..2147483647 as 1\<close>
  "timer_delay t = (if t < 1 \<or> 2147483647 < t then 1 else t)"

definition timeout_error :: "ClaudeCLIAdapter \<Rightarrow> thrown" where
  "timeout_error this =
     Error (''Claude CLI command timed out after '' @ Number_toString (timeout this) @ ''ms'')"

definition on_timeout :: "ClaudeCLIAdapter \<Rightarrow> spawn_state \<Rightarrow> spawn_state" where
  "on_timeout this s =
     (if \<not> finished s then
        settle (timer_delay (timeout this)) (Rejected (timeout_error this))
          (s\<lparr>finished := True, timer_armed := False, child_killed := True\<rparr>)
      else s)"

definition exit_code_text :: "nat option \<Rightarrow> string" where
  "exit_code_text code = (case code of None \<Rightarrow> ''null'' | Some n \<Rightarrow> Number_toString n)"

definition close_error_message :: "nat option \<Rightarrow> string \<Rightarrow> string \<Rightarrow> string" where
  "close_error_message code input err =
     (let errorMessage = ''Claude CLI command failed with exit code '' @ exit_code_text code;
          errorMessage =
            (if code = Some 1 then
               (let inputLength = js_length input in
                if inputLength > 10000 then
                  errorMessage @ '' (likely cause: context length exceeded with '' @
                    Number_toString inputLength @
                    '' character prompt - consider using Claude Sonnet instead of Haiku for large prompts)''
                else
                  errorMessage @
                    '' (possible causes: session corruption, rate limiting, or API authentication issues)'')
             else errorMessage)
      in errorMessage @ '': '' @ (if err = [] then ''No error output'' else err))"

text \<open>
  The handlers. \<open>unfinished\<close> says that the write to stdin is unfinished when the child
  ends: then the \<open>error\<close> of the stdin stream comes ahead of \<open>close\<close> and ends the process.
\<close>

fun on_event :: "bool \<Rightarrow> string \<Rightarrow> spawn_state \<Rightarrow> nat \<times> child_event \<Rightarrow> spawn_state" where
  "on_event unfinished input s (t, Stdout_data d) =
     (if died s then s else s\<lparr>stdout := stdout s @ d\<rparr>)"
| "on_event unfinished input s (t, Stderr_data d) =
     (if died s then s else s\<lparr>stderr := stderr s @ d\<rparr>)"
| "on_event unfinished input s (t, Close code) =
     (if died s then s
      else if unfinished then s\<lparr>died := True\<rparr>
      else if \<not> finished s then
        (let s1 = s\<lparr>finished := True, timer_armed := False\<rparr> in
         if code = Some 0 then settle t (Resolved (stdout s, stderr s)) s1
         else
           settle t (Rejected (Error (close_error_message code input (stderr s))))
             (s1\<lparr>spawn_logs := spawn_logs s1 @
                    [(LogError, ''Claude CLI process failed with detailed context'', None)]\<rparr>))
      else s)"
| "on_event unfinished input s (t, Proc_error m) =
     (if died s then s
      else if \<not> finished s then
        settle t (Rejected (Error m)) (s\<lparr>finished := True, timer_armed := False\<rparr>)
      else s)"

definition initial_spawn_state :: spawn_state where
  "initial_spawn_state =
     \<lparr>stdout = [], stderr = [], finished = False, timer_armed = True, child_killed = False,
      settled = Pending, settled_at = 0, spawn_logs = [], died = False\<rparr>"

definition write_stdin :: "child \<Rightarrow> spawn_state \<Rightarrow> spawn_state" where
  \<comment> \<open>the last statement of the executor, run before any event is delivered\<close>
  "write_stdin ch s =
     (if has_stdin ch then s
      else if \<not> finished s then
        settle 0 (Rejected (Error ''Failed to access stdin of Claude CLI process''))
          (s\<lparr>finished := True, timer_armed := False\<rparr>)
      else s)"

definition before_timer :: "ClaudeCLIAdapter \<Rightarrow> nat \<times> child_event \<Rightarrow> bool" where
  "before_timer this te = (fst te < timer_delay (timeout this))"

definition run_child :: "ClaudeCLIAdapter \<Rightarrow> string \<Rightarrow> child \<Rightarrow> spawn_state" where
  "run_child this input ch =
     (let unfinished = write_unfinished ch input;
          s1 = write_stdin ch initial_spawn_state;
          s2 = foldl (on_event unfinished input) s1 (takeWhile (before_timer this) (events ch));
          s3 = (if timer_armed s2 \<and> \<not> died s2 then on_timeout this s2 else s2)
      in foldl (on_event unfinished input) s3 (dropWhile (before_timer this) (events ch)))"

definition spawned_child :: "ClaudeCLIAdapter \<Rightarrow> string list \<Rightarrow> string \<Rightarrow> world \<Rightarrow> child" where
  \<comment> \<open>the process \<open>spawn(this.binary, args, ...)\<close> starts in world \<open>w\<close>\<close>
  "spawned_child this args input w =
     spawn_oracle w (history w @ [Spawn (binary this) args input])"

definition spawnWithStdin ::
  "ClaudeCLIAdapter \<Rightarrow> string list \<Rightarrow> string \<Rightarrow> world \<Rightarrow> (string \<times> string) outcome \<times> world" where
  "spawnWithStdin this args input w =
     (let h = history w @ [Spawn (binary this) args input];
          s = run_child this input (spawned_child this args input w)
      in (settled s,
          w\<lparr>history := h,
            now := now w + settled_at s,
            logs := logs w @ spawn_logs s,
            kills := (if child_killed s then kills w @ [length (history w)] else kills w),
            process_died := (process_died w \<or> died s)\<rparr>))"

subsection \<open>sendPrompt\<close>

record 'n ProviderSessionOptions =
  model :: "string option"
  temperature :: "'n option"

record 'n ProviderPromptOptions = "'n ProviderSessionOptions" +
  maxTokens :: "nat option"

record 'n ResponseMetadata =
  sessionId :: string
  used_model :: string
  jsonMode :: bool
  used_temperature :: "'n option"
  used_maxTokens :: "nat option"
  cost :: "'n option"
  rawResponse :: "'n ClaudeCLIResponse"

record 'n ProviderResponse =
  content :: string
  tokenUsage :: TokenUsage
  metadata :: "'n ResponseMetadata"
  truncated :: bool
  stopReason :: string

definition truthy :: "string option \<Rightarrow> bool" where
  \<comment> \<open>\<open>if (s)\<close> for a string that may be null or undefined\<close>
  "truthy s = (case s of None \<Rightarrow> False | Some x \<Rightarrow> x \<noteq> [])"

definition or_default :: "string option \<Rightarrow> string \<Rightarrow> string" where
  \<comment> \<open>\<open>s || d\<close>\<close>
  "or_default s d = (case s of None \<Rightarrow> d | Some x \<Rightarrow> if x = [] then d else x)"

definition sendPrompt_args :: "string option \<Rightarrow> ('n, 'x) ProviderPromptOptions_scheme \<Rightarrow> string list" where
  "sendPrompt_args sid options =
     [''--output-format'', ''json''] @ [''--max-turns'', ''0''] @
     (if truthy sid then [''--resume'', or_default sid []] else []) @
     (if truthy (model options) \<and> \<not> truthy sid then [''--model'', or_default (model options) []] else [])"

definition log_stderr :: "string \<Rightarrow> string \<Rightarrow> string \<Rightarrow> world \<Rightarrow> world" where
  \<comment> \<open>\<open>if (stderr && !this.isWarning(stderr)) warn(..) else if (stderr) debug(..)\<close>\<close>
  "log_stderr err warn_text debug_text w =
     (if err \<noteq> [] \<and> \<not> isWarning err then emit Warn warn_text w
      else if err \<noteq> [] then emit Debug debug_text w
      else w)"

definition sendPrompt_try ::
  "'n imported \<Rightarrow> ClaudeCLIAdapter \<Rightarrow> string option \<Rightarrow> string \<Rightarrow> 'n ProviderPromptOptions \<Rightarrow> world
     \<Rightarrow> 'n ProviderResponse outcome \<times> world" where
  "sendPrompt_try I this sid prompt options w =
     (let args = sendPrompt_args sid options;
          w1 = emit Debug ''Executing Claude CLI command with stdin'' w;
          (r, w2) = spawnWithStdin this args prompt w1
      in case r of
           Pending \<Rightarrow> (Pending, w2)
         | Rejected e \<Rightarrow> (Rejected e, w2)
         | Resolved (out, err) \<Rightarrow>
             (let w3 = emit Debug ''Claude CLI command executed'' w2;
                  w4 = log_stderr err ''Claude CLI stderr output'' ''Claude CLI warning output'' w3;
                  w5 = emit Debug ''Parsing Claude CLI response'' w4
              in case parseClaudeCLIResponse I out of
                   Inl e \<Rightarrow> (Rejected e, w5)
                 | Inr claudeResponse \<Rightarrow>
                     if is_error claudeResponse then
                       (let errorContent = extractContentFromResponse I claudeResponse;
                            w6 = emit_classified LlmError errorContent
                                   (isRetryableError (Error errorContent)) w5;
                            w7 = emit_classified LogError ''Claude CLI returned error response''
                                   (isRetryableError (Error errorContent)) w6
                        in (Rejected (Error (''Claude CLI error: '' @ errorContent)), w7))
                     else
                       (let content = extractContentFromResponse I claudeResponse;
                            tokenUsage = getTokenUsage I claudeResponse;
                            w6 = emit LlmResponse content w5;
                            w7 = emit LogPerformance ''Claude CLI Request'' w6;
                            w8 = emit Info ''SESSION_LIFECYCLE: Claude CLI prompt completed successfully'' w7;
                            w9 = emit Info ''Claude CLI response parsed successfully'' w8
                        in (Resolved
                              \<lparr>content = content,
                               tokenUsage = tokenUsage,
                               metadata =
                                 \<lparr>sessionId = session_id claudeResponse,
                                  used_model = or_default (model options) (DEFAULT_MODEL I),
                                  jsonMode = True,
                                  used_temperature = temperature options,
                                  used_maxTokens = maxTokens options,
                                  cost = total_cost_usd claudeResponse,
                                  rawResponse = claudeResponse\<rparr>,
                               truncated = False,
                               stopReason = ''end_turn''\<rparr>, w9))))"

definition sendPrompt ::
  "'n imported \<Rightarrow> ClaudeCLIAdapter \<Rightarrow> string option \<Rightarrow> string \<Rightarrow> 'n ProviderPromptOptions \<Rightarrow> world
     \<Rightarrow> 'n ProviderResponse outcome \<times> world" where
  "sendPrompt I this sid prompt options w =
     (let w1 = emit LlmRequest prompt w;
          w2 = emit Info ''SESSION_LIFECYCLE: Using Claude CLI session for prompt'' w1;
          w3 = emit Debug ''Claude CLI sendPrompt called'' w2;
          (r, w4) = sendPrompt_try I this sid prompt options w3
      in case r of
           Rejected e \<Rightarrow>
             (let w5 = emit_classified LlmError (message_or_unknown e) (isRetryableError e) w4;
                  w6 = emit_classified LogError ''Claude CLI sendPrompt failed'' (isRetryableError e) w5
              in (Rejected (enhanceError this e ''Failed to send prompt to Claude CLI''), w6))
         | _ \<Rightarrow> (r, w4))"

subsection \<open>validateSession and destroySession\<close>

record SessionValidation =
  valid :: bool
  error :: "string option"
  responseTime :: "nat option"

definition dq :: char where "dq = CHR 0x22"

definition validation_probe :: string where
  "validation_probe = ''Respond with just '' @ [dq] @ ''OK'' @ [dq] @ '' to confirm session is working.''"

definition probe_options :: "('n::zero) ProviderPromptOptions" where
  \<comment> \<open>\<open>{ maxTokens: 10, temperature: 0 }\<close>\<close>
  "probe_options = \<lparr>model = None, temperature = Some 0, maxTokens = Some 10\<rparr>"

definition validateSession ::
  "('n::zero) imported \<Rightarrow> ClaudeCLIAdapter \<Rightarrow> string \<Rightarrow> world \<Rightarrow> SessionValidation outcome \<times> world" where
  "validateSession I this sid w =
     (let startTime = now w;
          w1 = emit Info ''SESSION_VALIDATION: Testing session health'' w;
          (r, w2) = sendPrompt I this (Some sid) validation_probe probe_options w1
      in case r of
           Pending \<Rightarrow> (Pending, w2)
         | Resolved testResponse \<Rightarrow>
             (let rt = now w2 - startTime;
                  isValid = str_includes (toLowerCase (content testResponse)) ''ok'';
                  w3 = emit Info (''SESSION_VALIDATION: Session '' @
                                  (if isValid then ''valid'' else ''invalid'')) w2
              in (Resolved \<lparr>valid = isValid, error = None, responseTime = Some rt\<rparr>, w3))
         | Rejected e \<Rightarrow>
             (let rt = now w2 - startTime;
                  errorMessage = message_or_unknown e;
                  w3 = emit LogError ''SESSION_VALIDATION: Session validation failed'' w2
              in (Resolved \<lparr>valid = False, error = Some errorMessage, responseTime = Some rt\<rparr>, w3)))"

definition destroySession :: "ClaudeCLIAdapter \<Rightarrow> string \<Rightarrow> world \<Rightarrow> unit outcome \<times> world" where
  "destroySession this sid w =
     (let w1 = emit Debug ''Destroying Claude CLI session'' w;
          w2 = emit Info ''Claude CLI session destroyed'' w1
      in (Resolved (), w2))"

subsection \<open>isAvailable and getHealth\<close>

definition isAvailable :: "ClaudeCLIAdapter \<Rightarrow> world \<Rightarrow> bool outcome \<times> world" where
  "isAvailable this w =
     (let (r1, w1) = execAsync (''which '' @ binary this) w;
          (r, w') =
            (case r1 of
               Inl e \<Rightarrow> (Rejected e, w1)
             | Inr (out, err) \<Rightarrow>
                 if trim out = [] then (Resolved False, w1)
                 else
                   (let (r2, w2) = execAsync (binary this @ '' --version'') w1
                    in case r2 of
                         Inl e \<Rightarrow> (Rejected e, w2)
                       | Inr (versionOutput, err2) \<Rightarrow>
                           (Resolved (str_includes (toLowerCase versionOutput) ''claude'' \<or>
                                      str_includes versionOutput ''Claude''), w2)))
      in case r of
           Rejected e \<Rightarrow> (Resolved False, w')
         | _ \<Rightarrow> (r, w'))"

record HealthDetails =
  details_binary :: string
  details_timeout :: "nat option"
  details_testResponse :: "string option"
  details_error :: "thrown option"

record ProviderHealth =
  healthy :: bool
  checkedAt :: nat
  responseTimeMs :: nat
  health_error :: "string option"
  details :: HealthDetails

definition health_probe :: string where
  "health_probe = ''Say '' @ [dq] @ ''OK'' @ [dq]"

definition getHealth_try ::
  "('n::zero) imported \<Rightarrow> ClaudeCLIAdapter \<Rightarrow> nat \<Rightarrow> world \<Rightarrow> ProviderHealth outcome \<times> world" where
  "getHealth_try I this startTime w =
     (let (ra, w1) = isAvailable this w
      in case ra of
           Pending \<Rightarrow> (Pending, w1)
         | Rejected e \<Rightarrow> (Rejected e, w1)
         | Resolved available \<Rightarrow>
             (let rt = now w1 - startTime in
              if \<not> available then
                (Resolved
                   \<lparr>healthy = False, checkedAt = now w1, responseTimeMs = rt,
                    health_error = Some ''Claude CLI not found or not responding'',
                    details = \<lparr>details_binary = binary this, details_timeout = Some (timeout this),
                               details_testResponse = None, details_error = None\<rparr>\<rparr>, w1)
              else
                (let (rp, w2) = sendPrompt I this None health_probe probe_options w1
                 in case rp of
                      Pending \<Rightarrow> (Pending, w2)
                    | Rejected e \<Rightarrow> (Rejected e, w2)
                    | Resolved testResponse \<Rightarrow>
                        (Resolved
                           \<lparr>healthy = True, checkedAt = now w2, responseTimeMs = now w2 - startTime,
                            health_error = None,
                            details = \<lparr>details_binary = binary this, details_timeout = None,
                                       details_testResponse = Some (substring0 100 (content testResponse)),
                                       details_error = None\<rparr>\<rparr>, w2))))"

definition getHealth ::
  "('n::zero) imported \<Rightarrow> ClaudeCLIAdapter \<Rightarrow> world \<Rightarrow> ProviderHealth outcome \<times> world" where
  "getHealth I this w =
     (let startTime = now w;
          (r, w') = getHealth_try I this startTime w
      in case r of
           Rejected e \<Rightarrow>
             (Resolved
                \<lparr>healthy = False, checkedAt = now w', responseTimeMs = now w' - startTime,
                 health_error = Some (message_or_unknown e),
                 details = \<lparr>details_binary = binary this, details_timeout = None,
                            details_testResponse = None, details_error = Some e\<rparr>\<rparr>, w')
         | _ \<Rightarrow> (r, w'))"

subsection \<open>createSession\<close>

definition createSession_args :: "string \<Rightarrow> ('n, 'x) ProviderSessionOptions_scheme \<Rightarrow> string list" where
  "createSession_args uuid options =
     [''--output-format'', ''json''] @ [''--session-id'', uuid] @
     (if truthy (model options) then [''--model'', or_default (model options) []] else [])"

definition contextWithOptions :: "'n imported \<Rightarrow> string \<Rightarrow> ('n, 'x) ProviderSessionOptions_scheme \<Rightarrow> string" where
  "contextWithOptions I context options =
     (case temperature options of
        None \<Rightarrow> context
      | Some t \<Rightarrow>
          context @ [CHR 0x0A, CHR 0x0A] @ ''Please use a temperature of '' @ number_text I t @
            '' for your responses.'')"

definition createSession_try ::
  "'n imported \<Rightarrow> ClaudeCLIAdapter \<Rightarrow> string \<Rightarrow> string \<Rightarrow> 'n ProviderSessionOptions \<Rightarrow> world
     \<Rightarrow> string outcome \<times> world" where
  "createSession_try I this uuid context options w =
     (let args = createSession_args uuid options;
          (r, w1) = spawnWithStdin this args (contextWithOptions I context options) w
      in case r of
           Pending \<Rightarrow> (Pending, w1)
         | Rejected e \<Rightarrow> (Rejected e, w1)
         | Resolved (out, err) \<Rightarrow>
             (let w2 = emit Debug ''Claude CLI session created successfully'' w1;
                  w3 = log_stderr err ''Claude CLI session creation stderr output''
                         ''Claude CLI session creation warning output'' w2
              in case parseClaudeCLIResponse I out of
                   Inl e \<Rightarrow> (Rejected e, w3)
                 | Inr claudeResponse \<Rightarrow>
                     if is_error claudeResponse then
                       (Rejected (Error (''Failed to create session: '' @
                                         extractContentFromResponse I claudeResponse)), w3)
                     else
                       (let w4 = emit Info ''SESSION_LIFECYCLE: Claude CLI session established successfully'' w3;
                            w5 = emit Info ''SESSION_LIFECYCLE: Claude CLI session ready for use'' w4
                        in (Resolved (session_id claudeResponse), w5))))"

definition createSession ::
  "'n imported \<Rightarrow> ClaudeCLIAdapter \<Rightarrow> string \<Rightarrow> 'n ProviderSessionOptions \<Rightarrow> world
     \<Rightarrow> string outcome \<times> world" where
  "createSession I this context options w =
     (let (uuid, w1) = randomUUID w;
          w2 = emit Info ''SESSION_LIFECYCLE: Creating new Claude CLI session'' w1;
          w3 = emit Debug ''Creating Claude CLI session'' w2;
          (r, w4) = createSession_try I this uuid context options w3
      in case r of
           Rejected e \<Rightarrow>
             (let w5 = emit LogError ''SESSION_LIFECYCLE: Claude CLI session creation failed'' w4
              in (Rejected (enhanceError this e ''Failed to create Claude CLI session''), w5))
         | _ \<Rightarrow> (r, w4))"

section \<open>What the claims speak of\<close>

subsection \<open>The first completion of a child and what it had written\<close>

text \<open>
  Definitions that describe a child's behaviour directly from its event list, without
  running the handlers: the first \<open>close\<close> or \<open>error\<close> event among those delivered before
  the timer fires, and the chunks received on the two streams before the first such
  event. \<open>spawn_result\<close> states from them how the promise of \<open>spawnWithStdin\<close> settles;
  that the handlers compute it is \<open>run_child_settled\<close> below. The promise stays \<open>Pending\<close>
  where the child ends with the write to its stdin unfinished: the process dies. (The
  last case does not arise, a completion being a \<open>close\<close> or an \<open>error\<close>.)
\<close>

definition is_completion :: "child_event \<Rightarrow> bool" where
  "is_completion e = (case e of Close _ \<Rightarrow> True | Proc_error _ \<Rightarrow> True | _ \<Rightarrow> False)"

fun stdout_chunk :: "child_event \<Rightarrow> string" where
  "stdout_chunk (Stdout_data d) = d"
| "stdout_chunk _ = []"

fun stderr_chunk :: "child_event \<Rightarrow> string" where
  "stderr_chunk (Stderr_data d) = d"
| "stderr_chunk _ = []"

definition first_completion :: "ClaudeCLIAdapter \<Rightarrow> child \<Rightarrow> (nat \<times> child_event) option" where
  "first_completion this ch =
     find (is_completion \<circ> snd) (takeWhile (before_timer this) (events ch))"

definition received :: "(nat \<times> child_event) list \<Rightarrow> string \<times> string" where
  "received evs =
     (let chunks = map snd (takeWhile (\<lambda>te. \<not> is_completion (snd te)) evs)
      in (concat (map stdout_chunk chunks), concat (map stderr_chunk chunks)))"

definition spawn_result :: "ClaudeCLIAdapter \<Rightarrow> string \<Rightarrow> child \<Rightarrow> (string \<times> string) outcome" where
  "spawn_result this input ch =
     (if \<not> has_stdin ch then Rejected (Error ''Failed to access stdin of Claude CLI process'')
      else case first_completion this ch of
             None \<Rightarrow> Rejected (timeout_error this)
           | Some (t, Close code) \<Rightarrow>
               if write_unfinished ch input then Pending
               else if code = Some 0 then Resolved (received (events ch))
               else Rejected (Error (close_error_message code input (snd (received (events ch)))))
           | Some (t, Proc_error m) \<Rightarrow> Rejected (Error m)
           | Some (t, _) \<Rightarrow> Pending)"

subsection \<open>Failure of a provider invocation\<close>

text \<open>
  The invocation behind a \<open>sendPrompt\<close> call fails when the child has no stdin to write
  to, when no \<open>close\<close> or \<open>error\<close> event arrives before the timer (the deadline is
  exceeded), when the first such event is \<open>error\<close> (the process could not be started) or a
  \<open>close\<close> whose exit code is not 0, when the output does not parse, or when the parsed
  response carries \<open>is_error\<close>.
\<close>

definition parsed_output :: "'n imported \<Rightarrow> child \<Rightarrow> thrown + 'n ClaudeCLIResponse" where
  "parsed_output I ch = parseClaudeCLIResponse I (fst (received (events ch)))"

definition invocation_fails :: "'n imported \<Rightarrow> ClaudeCLIAdapter \<Rightarrow> child \<Rightarrow> bool" where
  "invocation_fails I this ch =
     (\<not> has_stdin ch \<or>
      (case first_completion this ch of
         None \<Rightarrow> True
       | Some (t, Close code) \<Rightarrow> code \<noteq> Some 0
       | Some (t, _) \<Rightarrow> True) \<or>
      (case parsed_output I ch of Inl e \<Rightarrow> True | Inr r \<Rightarrow> is_error r))"

text \<open>The value a successful \<open>sendPrompt\<close> resolves to, from the parsed response \<open>r\<close>.\<close>

definition prompt_response ::
  "'n imported \<Rightarrow> 'n ProviderPromptOptions \<Rightarrow> 'n ClaudeCLIResponse \<Rightarrow> 'n ProviderResponse" where
  "prompt_response I options r =
     \<lparr>content = extractContentFromResponse I r,
      tokenUsage = getTokenUsage I r,
      metadata =
        \<lparr>sessionId = session_id r,
         used_model = or_default (model options) (DEFAULT_MODEL I),
         jsonMode = True,
         used_temperature = temperature options,
         used_maxTokens = maxTokens options,
         cost = total_cost_usd r,
         rawResponse = r\<rparr>,
      truncated = False,
      stopReason = ''end_turn''\<rparr>"

text \<open>The value of a resolved promise.\<close>

definition resolved_value :: "'a outcome \<Rightarrow> 'a option" where
  "resolved_value r = (case r of Resolved v \<Rightarrow> Some v | _ \<Rightarrow> None)"

subsection \<open>The markers of the classifier\<close>

definition retryableMarkers :: "string list" where
  "retryableMarkers =
     [''timeout'', ''rate limit'', ''429'', ''502'', ''503'', ''504'', ''econnreset'', ''enotfound'',
      ''exit code 1'', ''session corruption'', ''context length exceeded'']"

text \<open>
  The messages \<open>enhanceError\<close> takes for an authentication failure, an invalid model and a
  response that is too large.
\<close>

definition indicates_fatal :: "string \<Rightarrow> bool" where
  "indicates_fatal m =
     (str_includes m ''unauthorized'' \<or> str_includes m ''authentication'' \<or> str_includes m ''401'' \<or>
      (str_includes m ''model'' \<and> str_includes m ''not found'') \<or>
      str_includes m ''ENOBUFS'' \<or> str_includes m ''maxBuffer'')"

subsection \<open>The answers of the classifier in the log\<close>

definition classifications :: "world \<Rightarrow> bool list" where
  "classifications w = List.map_filter (\<lambda>e. snd (snd e)) (logs w)"

subsection \<open>A call that misses its deadline\<close>

text \<open>The child was given a stdin, and none of its \<open>close\<close> or \<open>error\<close> events comes within the
  configured timeout.\<close>

definition misses_deadline :: "ClaudeCLIAdapter \<Rightarrow> child \<Rightarrow> bool" where
  "misses_deadline this ch =
     (has_stdin ch \<and>
      list_all (\<lambda>te. is_completion (snd te) \<longrightarrow> timeout this < fst te) (events ch))"

subsection \<open>The session id a spawn was given, and the one its output reports\<close>

fun arg_after :: "string \<Rightarrow> string list \<Rightarrow> string option" where
  "arg_after k [] = None"
| "arg_after k [x] = None"
| "arg_after k (x # y # ys) = (if x = k then Some y else arg_after k (y # ys))"

definition session_id_given :: "invocation \<Rightarrow> string option" where
  "session_id_given i = (case i of Spawn b args input \<Rightarrow> arg_after ''--session-id'' args | Exec c \<Rightarrow> None)"

definition reported_session_id :: "'n imported \<Rightarrow> child \<Rightarrow> string option" where
  "reported_session_id I ch =
     (case parsed_output I ch of Inl e \<Rightarrow> None | Inr r \<Rightarrow> Some (session_id r))"

text \<open>The CLI process that a \<open>createSession\<close> call made in world \<open>w\<close> spawns reports, in its
  output, the session id it is given after \<open>--session-id\<close>.\<close>

definition reports_given_id ::
  "'n imported \<Rightarrow> ClaudeCLIAdapter \<Rightarrow> string \<Rightarrow> 'n ProviderSessionOptions \<Rightarrow> world \<Rightarrow> bool" where
  "reports_given_id I this context options w =
     (reported_session_id I
        (spawned_child this (createSession_args (uuid_source w (uuid_count w)) options)
           (contextWithOptions I context options) w) =
      Some (uuid_source w (uuid_count w)))"

text \<open>The world in which \<open>createSession\<close> enters its \<open>try\<close> block: a UUID drawn, two
  entries logged.\<close>

definition session_start :: "world \<Rightarrow> world" where
  "session_start w =
     emit Debug ''Creating Claude CLI session''
       (emit Info ''SESSION_LIFECYCLE: Creating new Claude CLI session''
          (w\<lparr>uuid_count := Suc (uuid_count w)\<rparr>))"

subsection \<open>Small worlds to run the adapter in\<close>

text \<open>
  A stand-in for the schema module: an empty output does not parse; any other output is
  a response whose session id and content are the output itself, an error response when
  it starts with an exclamation mark.
\<close>

definition example_imported :: "nat imported" where
  "example_imported =
     \<lparr>parseClaudeCLIResponse =
        (\<lambda>out. if out = [] then Inl (Error ''Unexpected end of JSON input'')
               else Inr \<lparr>is_error = (take 1 out = ''!''), session_id = out, total_cost_usd = None\<rparr>),
      extractContentFromResponse = session_id,
      getTokenUsage = (\<lambda>r. \<lparr>inputTokens = 0, outputTokens = 0, totalTokens = 0\<rparr>),
      number_text = Number_toString,
      CLAUDE_CLI_BINARY = ''claude'',
      DEFAULT_REQUEST_TIMEOUT_MS = 120000,
      CLAUDE_CLI_MAX_BUFFER = 10485760,
      DEFAULT_MODEL = ''sonnet''\<rparr>"

definition plain_options :: "nat ProviderPromptOptions" where
  "plain_options = \<lparr>model = None, temperature = None, maxTokens = None\<rparr>"

definition plain_session_options :: "nat ProviderSessionOptions" where
  "plain_session_options = \<lparr>model = None, temperature = None\<rparr>"

definition example_adapter :: ClaudeCLIAdapter where
  "example_adapter = \<lparr>binary = ''claude'', timeout = 30000, maxBuffer = 10485760\<rparr>"

text \<open>Children, none of which reads its stdin, behind a pipe of 65536 bytes: one that
  prints a text and exits with 0, one that never finishes, one that exits with a code, one
  that exits with 0 at a given time, and one that prints the session id it was given.\<close>

definition prints :: "string \<Rightarrow> invocation list \<Rightarrow> child" where
  "prints out h =
     \<lparr>has_stdin = True, stdin_capacity = 65536,
      events = [(5, Stdout_data out), (7, Close (Some 0))]\<rparr>"

definition hangs :: "invocation list \<Rightarrow> child" where
  "hangs h = \<lparr>has_stdin = True, stdin_capacity = 65536, events = []\<rparr>"

definition exits_with :: "nat \<Rightarrow> invocation list \<Rightarrow> child" where
  "exits_with code h =
     \<lparr>has_stdin = True, stdin_capacity = 65536,
      events = [(5, Stderr_data ''boom''), (7, Close (Some code))]\<rparr>"

definition closes_at :: "nat \<Rightarrow> invocation list \<Rightarrow> child" where
  "closes_at t h = \<lparr>has_stdin = True, stdin_capacity = 65536, events = [(t, Close (Some 0))]\<rparr>"

definition echoes_session_id :: "invocation list \<Rightarrow> child" where
  "echoes_session_id h =
     (case session_id_given (last h) of
        Some u \<Rightarrow> prints u h
      | None \<Rightarrow> exits_with 1 h)"

definition example_world :: "(invocation list \<Rightarrow> child) \<Rightarrow> world" where
  "example_world cli =
     \<lparr>history = [],
      spawn_oracle = cli,
      exec_oracle = (\<lambda>h. (3, Inr (''/usr/bin/claude'', []))),
      uuid_source = (\<lambda>n. if n = 0 then ''uuid-a'' else ''uuid-b''),
      uuid_count = 0,
      now = 1000,
      logs = [],
      kills = [],
      process_died = False\<rparr>"

section \<open>Properties\<close>

subsection \<open>Strings\<close>

lemma toLowerCase_char_o: "toLowerCase_char c = CHR ''o'' \<longleftrightarrow> c = CHR ''o'' \<or> c = CHR ''O''"
  by (auto simp: toLowerCase_char_def split: if_splits)

lemma toLowerCase_char_k: "toLowerCase_char c = CHR ''k'' \<longleftrightarrow> c = CHR ''k'' \<or> c = CHR ''K''"
  by (auto simp: toLowerCase_char_def split: if_splits)

lemma prefix_kelvin: "prefix kelvin_sign (c # cs) \<Longrightarrow> c # cs = kelvin_sign @ drop 2 cs"
  by (auto simp: kelvin_sign_def prefix_def)

lemma prefix_capital_I_dotted:
  "prefix capital_I_dotted (c # cs) \<Longrightarrow> c # cs = capital_I_dotted @ drop 1 cs"
  by (auto simp: capital_I_dotted_def prefix_def)

text \<open>What lower-cases to a text that starts with \<open>k\<close>.\<close>

lemma toLowerCase_starts_with_k:
  "prefix ''k'' (toLowerCase s) \<longleftrightarrow>
     (\<exists>d z. s = d @ z \<and> (d = ''k'' \<or> d = ''K'' \<or> d = kelvin_sign))"
proof (cases s)
  case Nil
  then show ?thesis by (auto simp: kelvin_sign_def)
next
  case (Cons c cs)
  show ?thesis
  proof (cases "prefix kelvin_sign (c # cs)")
    case True
    then have "toLowerCase s = CHR ''k'' # toLowerCase (drop 2 cs)"
      by (simp add: Cons toLowerCase.simps)
    moreover have "s = kelvin_sign @ drop 2 cs"
      using True Cons by (simp add: prefix_kelvin)
    ultimately show ?thesis by auto
  next
    case nk: False
    show ?thesis
    proof (cases "prefix capital_I_dotted (c # cs)")
      case True
      then have "toLowerCase s = small_i_dotted @ toLowerCase (drop 1 cs)"
        using nk by (simp add: Cons toLowerCase.simps)
      moreover have "c = CHR 0xC4"
        using True by (simp add: capital_I_dotted_def)
      ultimately show ?thesis
        using Cons by (auto simp: small_i_dotted_def kelvin_sign_def)
    next
      case False
      then have "toLowerCase s = toLowerCase_char c # toLowerCase cs"
        using nk by (simp add: Cons toLowerCase.simps)
      moreover have "(\<exists>d z. c # cs = d @ z \<and> (d = ''k'' \<or> d = ''K'' \<or> d = kelvin_sign)) \<longleftrightarrow>
                     c = CHR ''k'' \<or> c = CHR ''K''"
      proof
        assume "\<exists>d z. c # cs = d @ z \<and> (d = ''k'' \<or> d = ''K'' \<or> d = kelvin_sign)"
        then obtain d z where "c # cs = d @ z" "d = ''k'' \<or> d = ''K'' \<or> d = kelvin_sign" by blast
        with nk show "c = CHR ''k'' \<or> c = CHR ''K''" by (auto simp: prefix_def)
      next
        assume "c = CHR ''k'' \<or> c = CHR ''K''"
        then have "c # cs = ''k'' @ cs \<or> c # cs = ''K'' @ cs" by auto
        then show "\<exists>d z. c # cs = d @ z \<and> (d = ''k'' \<or> d = ''K'' \<or> d = kelvin_sign)" by blast
      qed
      ultimately show ?thesis
        using toLowerCase_char_k [of c] by (auto simp: Cons)
    qed
  qed
qed

text \<open>
  The lower case of a text contains \<open>ok\<close> exactly when the text has an \<open>o\<close> or \<open>O\<close> followed at
  once by \<open>k\<close>, \<open>K\<close> or the Kelvin sign.
\<close>

lemma includes_ok_iff:
  "str_includes (toLowerCase s) ''ok'' \<longleftrightarrow>
     (\<exists>u z c d. s = u @ [c] @ d @ z \<and> (c = CHR ''o'' \<or> c = CHR ''O'') \<and>
                (d = ''k'' \<or> d = ''K'' \<or> d = kelvin_sign))"
  (is "?L s \<longleftrightarrow> ?R s")
proof (induction s rule: toLowerCase.induct)
  case 1
  show ?case by simp
next
  case (2 c cs)
  show ?case
  proof (cases "prefix kelvin_sign (c # cs)")
    case True
    then have lo: "toLowerCase (c # cs) = CHR ''k'' # toLowerCase (drop 2 cs)"
      by (simp add: toLowerCase.simps)
    have s: "c # cs = kelvin_sign @ drop 2 cs" using True by (rule prefix_kelvin)
    have "?L (c # cs) \<longleftrightarrow> ?L (drop 2 cs)" by (simp add: lo)
    also have "\<dots> \<longleftrightarrow> ?R (drop 2 cs)" using "2.IH"(1) True by simp
    also have "\<dots> \<longleftrightarrow> ?R (c # cs)"
    proof
      assume "?R (drop 2 cs)"
      then obtain u z a d where "drop 2 cs = u @ [a] @ d @ z" "a = CHR ''o'' \<or> a = CHR ''O''"
        "d = ''k'' \<or> d = ''K'' \<or> d = kelvin_sign" by blast
      then have "c # cs = (kelvin_sign @ u) @ [a] @ d @ z" using s by simp
      with \<open>a = CHR ''o'' \<or> a = CHR ''O''\<close> \<open>d = ''k'' \<or> d = ''K'' \<or> d = kelvin_sign\<close>
      show "?R (c # cs)" by blast
    next
      assume "?R (c # cs)"
      then obtain u z a d where e: "kelvin_sign @ drop 2 cs = u @ [a] @ d @ z"
        and a: "a = CHR ''o'' \<or> a = CHR ''O''"
        and d: "d = ''k'' \<or> d = ''K'' \<or> d = kelvin_sign" using s by metis
      from e a obtain u' where "drop 2 cs = u' @ [a] @ d @ z"
        by (cases u; cases "tl u"; cases "tl (tl u)") (auto simp: kelvin_sign_def)
      with a d show "?R (drop 2 cs)" by blast
    qed
    finally show ?thesis .
  next
    case nk: False
    show ?thesis
    proof (cases "prefix capital_I_dotted (c # cs)")
      case True
      then have lo: "toLowerCase (c # cs) = small_i_dotted @ toLowerCase (drop 1 cs)"
        using nk by (simp add: toLowerCase.simps)
      have s: "c # cs = capital_I_dotted @ drop 1 cs" using True by (rule prefix_capital_I_dotted)
      have "?L (c # cs) \<longleftrightarrow> ?L (drop 1 cs)" by (simp add: lo small_i_dotted_def)
      also have "\<dots> \<longleftrightarrow> ?R (drop 1 cs)" using "2.IH"(2) True nk by simp
      also have "\<dots> \<longleftrightarrow> ?R (c # cs)"
      proof
        assume "?R (drop 1 cs)"
        then obtain u z a d where "drop 1 cs = u @ [a] @ d @ z" "a = CHR ''o'' \<or> a = CHR ''O''"
          "d = ''k'' \<or> d = ''K'' \<or> d = kelvin_sign" by blast
        then have "c # cs = (capital_I_dotted @ u) @ [a] @ d @ z" using s by simp
        with \<open>a = CHR ''o'' \<or> a = CHR ''O''\<close> \<open>d = ''k'' \<or> d = ''K'' \<or> d = kelvin_sign\<close>
        show "?R (c # cs)" by blast
      next
        assume "?R (c # cs)"
        then obtain u z a d where e: "capital_I_dotted @ drop 1 cs = u @ [a] @ d @ z"
          and a: "a = CHR ''o'' \<or> a = CHR ''O''"
          and d: "d = ''k'' \<or> d = ''K'' \<or> d = kelvin_sign" using s by metis
        from e a obtain u' where "drop 1 cs = u' @ [a] @ d @ z"
          by (cases u; cases "tl u") (auto simp: capital_I_dotted_def)
        with a d show "?R (drop 1 cs)" by blast
      qed
      finally show ?thesis .
    next
      case False
      then have lo: "toLowerCase (c # cs) = toLowerCase_char c # toLowerCase cs"
        using nk by (simp add: toLowerCase.simps)
      have ih: "?L cs \<longleftrightarrow> ?R cs" using "2.IH"(3) False nk by simp
      have "?L (c # cs) \<longleftrightarrow> (toLowerCase_char c = CHR ''o'' \<and> prefix ''k'' (toLowerCase cs)) \<or> ?L cs"
        by (auto simp: lo)
      also have "\<dots> \<longleftrightarrow> ((c = CHR ''o'' \<or> c = CHR ''O'') \<and>
                         (\<exists>d z. cs = d @ z \<and> (d = ''k'' \<or> d = ''K'' \<or> d = kelvin_sign))) \<or> ?R cs"
        by (simp only: toLowerCase_char_o toLowerCase_starts_with_k ih)
      also have "\<dots> \<longleftrightarrow> ?R (c # cs)"
      proof
        assume "((c = CHR ''o'' \<or> c = CHR ''O'') \<and>
                  (\<exists>d z. cs = d @ z \<and> (d = ''k'' \<or> d = ''K'' \<or> d = kelvin_sign))) \<or> ?R cs"
        then show "?R (c # cs)"
        proof
          assume "(c = CHR ''o'' \<or> c = CHR ''O'') \<and>
                  (\<exists>d z. cs = d @ z \<and> (d = ''k'' \<or> d = ''K'' \<or> d = kelvin_sign))"
          then obtain d z where "c = CHR ''o'' \<or> c = CHR ''O''" "c # cs = [] @ [c] @ d @ z"
            "d = ''k'' \<or> d = ''K'' \<or> d = kelvin_sign" by auto
          then show ?thesis by blast
        next
          assume "?R cs"
          then obtain u z a d where "cs = u @ [a] @ d @ z" "a = CHR ''o'' \<or> a = CHR ''O''"
            "d = ''k'' \<or> d = ''K'' \<or> d = kelvin_sign" by blast
          then have "c # cs = (c # u) @ [a] @ d @ z" by simp
          with \<open>a = CHR ''o'' \<or> a = CHR ''O''\<close> \<open>d = ''k'' \<or> d = ''K'' \<or> d = kelvin_sign\<close>
          show ?thesis by blast
        qed
      next
        assume "?R (c # cs)"
        then obtain u z a d where e: "c # cs = u @ [a] @ d @ z"
          and a: "a = CHR ''o'' \<or> a = CHR ''O''"
          and d: "d = ''k'' \<or> d = ''K'' \<or> d = kelvin_sign" by blast
        show "((c = CHR ''o'' \<or> c = CHR ''O'') \<and>
                  (\<exists>d z. cs = d @ z \<and> (d = ''k'' \<or> d = ''K'' \<or> d = kelvin_sign))) \<or> ?R cs"
        proof (cases u)
          case Nil
          with e a d show ?thesis by auto
        next
          case (Cons b u')
          with e have "cs = u' @ [a] @ d @ z" by simp
          with a d have "?R cs" by blast
          then show ?thesis ..
        qed
      qed
      finally show ?thesis .
    qed
  qed
qed

subsection \<open>How the promise of spawnWithStdin settles\<close>

lemma on_event_died: "died s \<Longrightarrow> on_event unf input s te = s"
  by (cases te; cases "snd te") auto

lemma foldl_died: "died s \<Longrightarrow> foldl (on_event unf input) s evs = s"
  by (induction evs) (simp_all add: on_event_died)

text \<open>Once \<open>finished\<close> is set, no event changes how the promise is settled.\<close>

lemma on_event_finished:
  assumes "finished s"
  shows "finished (on_event unf input s te)"
    and "settled (on_event unf input s te) = settled s"
    and "child_killed (on_event unf input s te) = child_killed s"
    and "settled_at (on_event unf input s te) = settled_at s"
    and "spawn_logs (on_event unf input s te) = spawn_logs s"
    and "timer_armed (on_event unf input s te) = timer_armed s"
  using assms by (cases te; cases "snd te"; simp)+

lemma foldl_finished:
  assumes "finished s"
  shows "finished (foldl (on_event unf input) s evs)"
    and "settled (foldl (on_event unf input) s evs) = settled s"
    and "child_killed (foldl (on_event unf input) s evs) = child_killed s"
    and "settled_at (foldl (on_event unf input) s evs) = settled_at s"
    and "spawn_logs (foldl (on_event unf input) s evs) = spawn_logs s"
    and "timer_armed (foldl (on_event unf input) s evs) = timer_armed s"
  using assms by (induction evs arbitrary: s; simp add: on_event_finished)+

text \<open>Before the first completion, events only add to the two buffers.\<close>

lemma foldl_data:
  "\<forall>te \<in> set evs. \<not> is_completion (snd te) \<Longrightarrow> \<not> died s \<Longrightarrow>
   foldl (on_event unf input) s evs =
     s\<lparr>stdout := stdout s @ concat (map (stdout_chunk \<circ> snd) evs),
       stderr := stderr s @ concat (map (stderr_chunk \<circ> snd) evs)\<rparr>"
proof (induction evs arbitrary: s)
  case Nil
  then show ?case by simp
next
  case (Cons te evs)
  obtain t e where te: "te = (t, e)" by (cases te)
  show ?case using Cons.prems Cons.IH [of "on_event unf input s te"]
    by (cases e) (simp_all add: te is_completion_def)
qed

lemma find_split:
  "find P xs = Some x \<Longrightarrow> \<exists>ys zs. xs = ys @ x # zs \<and> P x \<and> (\<forall>y \<in> set ys. \<not> P y)"
proof (induction xs)
  case Nil
  then show ?case by simp
next
  case (Cons a xs)
  show ?case
  proof (cases "P a")
    case True
    with Cons.prems have "a = x" by simp
    with True have "a # xs = [] @ x # xs \<and> P x \<and> (\<forall>y \<in> set []. \<not> P y)" by simp
    then show ?thesis by blast
  next
    case False
    with Cons obtain ys zs where "xs = ys @ x # zs" "P x" "\<forall>y \<in> set ys. \<not> P y" by auto
    with False have "a # xs = (a # ys) @ x # zs \<and> P x \<and> (\<forall>y \<in> set (a # ys). \<not> P y)" by simp
    then show ?thesis by blast
  qed
qed

lemma takeWhile_no_completion:
  "\<forall>y \<in> set ys. \<not> P y \<Longrightarrow> P x \<Longrightarrow> takeWhile (\<lambda>y. \<not> P y) (ys @ x # zs) = ys"
  by (induction ys) auto

lemma received_split:
  assumes "\<forall>y \<in> set ys. \<not> is_completion (snd y)" and "is_completion (snd x)"
  shows "received (ys @ x # zs) =
           (concat (map (stdout_chunk \<circ> snd) ys), concat (map (stderr_chunk \<circ> snd) ys))"
  using takeWhile_no_completion [of ys "\<lambda>y. is_completion (snd y)" x zs] assms
  by (simp add: received_def)

text \<open>
  The three ways a run goes: the child has no stdin; it has one and no completion event
  comes before the timer; it has one and a completion event comes first.
\<close>

lemma run_child_no_stdin:
  assumes "\<not> has_stdin ch"
  shows "settled (run_child this input ch) = Rejected (Error ''Failed to access stdin of Claude CLI process'')"
proof -
  let ?unf = "write_unfinished ch input"
  let ?s1 = "write_stdin ch initial_spawn_state"
  have s1: "finished ?s1" "\<not> timer_armed ?s1"
    "settled ?s1 = Rejected (Error ''Failed to access stdin of Claude CLI process'')"
    using assms by (simp_all add: write_stdin_def initial_spawn_state_def settle_def)
  let ?s2 = "foldl (on_event ?unf input) ?s1 (takeWhile (before_timer this) (events ch))"
  have s2: "finished ?s2" "\<not> timer_armed ?s2"
    "settled ?s2 = Rejected (Error ''Failed to access stdin of Claude CLI process'')"
    using s1 by (simp_all add: foldl_finished)
  have rc: "run_child this input ch =
              foldl (on_event ?unf input) ?s2 (dropWhile (before_timer this) (events ch))"
    using s2 by (simp add: run_child_def Let_def)
  show ?thesis using s2 by (simp add: rc foldl_finished)
qed

lemma run_child_timeout:
  assumes "has_stdin ch" and "first_completion this ch = None"
  shows "settled (run_child this input ch) = Rejected (timeout_error this)"
    and "child_killed (run_child this input ch) = True"
    and "settled_at (run_child this input ch) = timer_delay (timeout this)"
    and "spawn_logs (run_child this input ch) = []"
proof -
  let ?unf = "write_unfinished ch input"
  let ?pre = "takeWhile (before_timer this) (events ch)"
  have nc: "\<forall>te \<in> set ?pre. \<not> is_completion (snd te)"
    using assms(2) by (auto simp: first_completion_def find_None_iff)
  have s1: "\<And>s. write_stdin ch s = s" using assms(1) by (simp add: write_stdin_def)
  have nd: "\<not> died initial_spawn_state" by (simp add: initial_spawn_state_def)
  let ?s2 = "foldl (on_event ?unf input) (write_stdin ch initial_spawn_state) ?pre"
  have s2: "\<not> finished ?s2" "timer_armed ?s2" "\<not> died ?s2" "settled ?s2 = Pending" "spawn_logs ?s2 = []"
    unfolding s1 foldl_data [OF nc nd] by (simp_all add: initial_spawn_state_def)
  let ?s3 = "on_timeout this ?s2"
  have s3: "finished ?s3" "child_killed ?s3" "settled ?s3 = Rejected (timeout_error this)"
    "settled_at ?s3 = timer_delay (timeout this)" "spawn_logs ?s3 = []"
    using s2 by (simp_all add: on_timeout_def settle_def)
  have rc: "run_child this input ch =
              foldl (on_event ?unf input) ?s3 (dropWhile (before_timer this) (events ch))"
    using s2 by (simp add: run_child_def Let_def)
  show "settled (run_child this input ch) = Rejected (timeout_error this)"
    and "child_killed (run_child this input ch) = True"
    and "settled_at (run_child this input ch) = timer_delay (timeout this)"
    and "spawn_logs (run_child this input ch) = []"
    using s3 by (simp_all add: rc foldl_finished)
qed

lemma run_child_completion:
  assumes "has_stdin ch" and "first_completion this ch = Some (t, e)"
  shows "settled (run_child this input ch) =
           (case e of
              Close code \<Rightarrow>
                if write_unfinished ch input then Pending
                else if code = Some 0 then Resolved (received (events ch))
                else Rejected (Error (close_error_message code input (snd (received (events ch)))))
            | Proc_error m \<Rightarrow> Rejected (Error m)
            | _ \<Rightarrow> Pending)"
    and "(\<exists>code. e = Close code) \<and> write_unfinished ch input \<longrightarrow> died (run_child this input ch)"
    and "is_completion e"
proof -
  let ?unf = "write_unfinished ch input"
  let ?pre = "takeWhile (before_timer this) (events ch)"
  let ?post = "dropWhile (before_timer this) (events ch)"
  let ?goal = "settled (run_child this input ch) =
           (case e of
              Close code \<Rightarrow>
                if write_unfinished ch input then Pending
                else if code = Some 0 then Resolved (received (events ch))
                else Rejected (Error (close_error_message code input (snd (received (events ch)))))
            | Proc_error m \<Rightarrow> Rejected (Error m)
            | _ \<Rightarrow> Pending)"
  from assms(2) obtain ys zs where pre: "?pre = ys @ (t, e) # zs"
    and comp: "is_completion (snd (t, e))" and nc: "\<forall>y \<in> set ys. \<not> is_completion (snd y)"
    using find_split [of "is_completion \<circ> snd" ?pre "(t, e)"]
    by (auto simp: first_completion_def)
  show "is_completion e" using comp by simp
  have "events ch = ?pre @ ?post" by simp
  then have ev: "events ch = ys @ (t, e) # (zs @ ?post)" by (simp add: pre)
  have rec: "received (events ch) =
               (concat (map (stdout_chunk \<circ> snd) ys), concat (map (stderr_chunk \<circ> snd) ys))"
    using received_split [OF nc comp, of "zs @ ?post"] ev by simp
  have s1: "\<And>s. write_stdin ch s = s" using assms(1) by (simp add: write_stdin_def)
  have nd: "\<not> died initial_spawn_state" by (simp add: initial_spawn_state_def)
  let ?sa = "foldl (on_event ?unf input) (write_stdin ch initial_spawn_state) ys"
  have sa: "\<not> finished ?sa" "settled ?sa = Pending" "\<not> died ?sa" "timer_armed ?sa"
    "stdout ?sa = concat (map (stdout_chunk \<circ> snd) ys)"
    "stderr ?sa = concat (map (stderr_chunk \<circ> snd) ys)"
    unfolding s1 foldl_data [OF nc nd] by (simp_all add: initial_spawn_state_def)
  let ?sb = "on_event ?unf input ?sa (t, e)"
  let ?s2 = "foldl (on_event ?unf input) (write_stdin ch initial_spawn_state) ?pre"
  have s2eq: "?s2 = foldl (on_event ?unf input) ?sb zs" by (simp add: pre)
  have both: "?goal \<and> ((\<exists>code. e = Close code) \<and> ?unf \<longrightarrow> died (run_child this input ch))"
  proof (cases "(\<exists>code. e = Close code) \<and> ?unf")
    case True
    then obtain code where e: "e = Close code" and unf: ?unf by blast
    have sb: "died ?sb" "settled ?sb = Pending"
      using sa e unf by simp_all
    have s2: "?s2 = ?sb" by (simp add: s2eq foldl_died sb(1))
    have "run_child this input ch = ?sb"
      using sb(1) by (simp add: run_child_def Let_def s2 foldl_died)
    then show ?thesis using sb e unf by simp
  next
    case False
    have sb: "finished ?sb" "\<not> timer_armed ?sb"
      "settled ?sb =
         (case e of
            Close code \<Rightarrow>
              if code = Some 0 then Resolved (received (events ch))
              else Rejected (Error (close_error_message code input (snd (received (events ch)))))
          | Proc_error m \<Rightarrow> Rejected (Error m)
          | _ \<Rightarrow> Pending)"
      using sa comp False by (cases e; simp add: settle_def rec is_completion_def Let_def)+
    have s2: "finished ?s2" "\<not> timer_armed ?s2" "settled ?s2 = settled ?sb"
      using sb(1,2) by (simp_all add: s2eq foldl_finished)
    have rc: "run_child this input ch = foldl (on_event ?unf input) ?s2 ?post"
      using s2 by (simp add: run_child_def Let_def)
    have "settled (run_child this input ch) = settled ?s2"
      by (simp only: rc foldl_finished(2) [OF s2(1)])
    also have "\<dots> = settled ?sb" by (rule s2(3))
    also have "\<dots> =
         (case e of
            Close code \<Rightarrow>
              if code = Some 0 then Resolved (received (events ch))
              else Rejected (Error (close_error_message code input (snd (received (events ch)))))
          | Proc_error m \<Rightarrow> Rejected (Error m)
          | _ \<Rightarrow> Pending)" by (rule sb(3))
    finally have eq: "settled (run_child this input ch) =
         (case e of
            Close code \<Rightarrow>
              if code = Some 0 then Resolved (received (events ch))
              else Rejected (Error (close_error_message code input (snd (received (events ch)))))
          | Proc_error m \<Rightarrow> Rejected (Error m)
          | _ \<Rightarrow> Pending)" .
    show ?thesis using eq False by (cases e) auto
  qed
  from both show ?goal ..
  from both show "(\<exists>code. e = Close code) \<and> write_unfinished ch input \<longrightarrow> died (run_child this input ch)" ..
qed

lemma run_child_settled: "settled (run_child this input ch) = spawn_result this input ch"
proof (cases "has_stdin ch")
  case False
  then show ?thesis by (simp add: run_child_no_stdin spawn_result_def)
next
  case True
  show ?thesis
  proof (cases "first_completion this ch")
    case None
    with True show ?thesis by (simp add: run_child_timeout spawn_result_def)
  next
    case (Some te)
    obtain t e where te: "te = (t, e)" by (cases te)
    show ?thesis
      using True Some run_child_completion(1) [of ch this t e input]
      by (cases e) (simp_all add: spawn_result_def te)
  qed
qed

text \<open>The promise settles whenever the write to stdin is finished by the time the child
  ends, as it is for an input that fits a pipe.\<close>

lemma short_write_finishes: "length input \<le> pipe_minimum \<Longrightarrow> \<not> write_unfinished ch input"
  by (simp add: write_unfinished_def)

lemma spawn_result_not_Pending:
  assumes "\<not> write_unfinished ch input"
  shows "spawn_result this input ch \<noteq> Pending"
proof (cases "has_stdin ch")
  case False
  then show ?thesis by (simp add: spawn_result_def)
next
  case True
  show ?thesis
  proof (cases "first_completion this ch")
    case None
    with True show ?thesis by (simp add: spawn_result_def)
  next
    case (Some te)
    obtain t e where te: "te = (t, e)" by (cases te)
    have "is_completion e"
      using True Some run_child_completion(3) [of ch this t e] by (simp add: te)
    then show ?thesis
      using True Some assms by (cases e) (simp_all add: spawn_result_def te is_completion_def)
  qed
qed

subsection \<open>sendPrompt\<close>

lemma spawned_child_emit [simp]:
  "spawned_child this args input (emit l m w) = spawned_child this args input w"
  "spawned_child this args input (emit_classified l m b w) = spawned_child this args input w"
  by (simp_all add: spawned_child_def emit_def emit_classified_def)

lemma spawnWithStdin_fst:
  "fst (spawnWithStdin this args input w) = spawn_result this input (spawned_child this args input w)"
  by (simp add: spawnWithStdin_def Let_def run_child_settled)

lemma enhanceError_shape: "\<exists>m. enhanceError this e c = Error (c @ '': '' @ m)"
  by (simp add: enhanceError_def Let_def)

lemma sendPrompt_try_fst:
  "fst (sendPrompt_try I this sid prompt options w) =
     (case spawn_result this prompt (spawned_child this (sendPrompt_args sid options) prompt w) of
        Pending \<Rightarrow> Pending
      | Rejected e \<Rightarrow> Rejected e
      | Resolved oe \<Rightarrow>
          (case parseClaudeCLIResponse I (fst oe) of
             Inl e \<Rightarrow> Rejected e
           | Inr r \<Rightarrow>
               if is_error r then Rejected (Error (''Claude CLI error: '' @ extractContentFromResponse I r))
               else Resolved (prompt_response I options r)))"
proof -
  let ?w1 = "emit Debug ''Executing Claude CLI command with stdin'' w"
  obtain r w2 where sp: "spawnWithStdin this (sendPrompt_args sid options) prompt ?w1 = (r, w2)"
    by (cases "spawnWithStdin this (sendPrompt_args sid options) prompt ?w1")
  have r: "r = spawn_result this prompt (spawned_child this (sendPrompt_args sid options) prompt w)"
    using spawnWithStdin_fst [of this "sendPrompt_args sid options" prompt ?w1] sp by simp
  show ?thesis
    unfolding sendPrompt_try_def Let_def sp r [symmetric]
    by (simp add: prompt_response_def split: outcome.splits sum.splits prod.splits)
qed

lemma sendPrompt_fst:
  "fst (sendPrompt I this sid prompt options w) =
     (case fst (sendPrompt_try I this sid prompt options
                  (emit Debug ''Claude CLI sendPrompt called''
                    (emit Info ''SESSION_LIFECYCLE: Using Claude CLI session for prompt''
                      (emit LlmRequest prompt w)))) of
        Rejected e \<Rightarrow> Rejected (enhanceError this e ''Failed to send prompt to Claude CLI'')
      | Resolved v \<Rightarrow> Resolved v
      | Pending \<Rightarrow> Pending)"
  by (simp add: sendPrompt_def Let_def split: outcome.splits prod.splits)

lemma sendPrompt_outcome:
  "fst (sendPrompt I this sid prompt options w) =
     (case spawn_result this prompt (spawned_child this (sendPrompt_args sid options) prompt w) of
        Pending \<Rightarrow> Pending
      | Rejected e \<Rightarrow> Rejected (enhanceError this e ''Failed to send prompt to Claude CLI'')
      | Resolved oe \<Rightarrow>
          (case parseClaudeCLIResponse I (fst oe) of
             Inl e \<Rightarrow> Rejected (enhanceError this e ''Failed to send prompt to Claude CLI'')
           | Inr r \<Rightarrow>
               if is_error r then
                 Rejected (enhanceError this
                   (Error (''Claude CLI error: '' @ extractContentFromResponse I r))
                   ''Failed to send prompt to Claude CLI'')
               else Resolved (prompt_response I options r)))"
  by (simp add: sendPrompt_fst sendPrompt_try_fst split: outcome.splits sum.splits)

lemma sendPrompt_Pending_iff:
  "fst (sendPrompt I this sid prompt options w) = Pending \<longleftrightarrow>
   spawn_result this prompt (spawned_child this (sendPrompt_args sid options) prompt w) = Pending"
  by (simp add: sendPrompt_outcome split: outcome.splits sum.splits)

lemma sendPrompt_not_Pending:
  "length prompt \<le> pipe_minimum \<Longrightarrow> fst (sendPrompt I this sid prompt options w) \<noteq> Pending"
  using spawn_result_not_Pending [OF short_write_finishes]
  by (simp add: sendPrompt_Pending_iff)

lemma sendPrompt_rejection_is_Error:
  "fst (sendPrompt I this sid prompt options w) = Rejected e \<Longrightarrow>
   \<exists>m. e = Error (''Failed to send prompt to Claude CLI: '' @ m)"
  using enhanceError_shape [of this _ "''Failed to send prompt to Claude CLI''"]
  by (auto simp: sendPrompt_outcome split: outcome.splits sum.splits if_splits)

lemma spawn_result_Resolved:
  "spawn_result this input ch = Resolved oe \<Longrightarrow> oe = received (events ch)"
  by (auto simp: spawn_result_def split: option.splits child_event.splits if_splits)

text \<open>
  Where the write to stdin is finished by the time the child ends, \<open>sendPrompt\<close> rejects
  exactly when the invocation fails, with the enhanced error, and otherwise resolves to
  the value built from the parsed response.
\<close>

lemma sendPrompt_when_written:
  assumes "\<not> write_unfinished (spawned_child this (sendPrompt_args sid options) prompt w) prompt"
  shows "(invocation_fails I this (spawned_child this (sendPrompt_args sid options) prompt w) \<longrightarrow>
            (\<exists>m. fst (sendPrompt I this sid prompt options w) =
                   Rejected (Error (''Failed to send prompt to Claude CLI: '' @ m)))) \<and>
         (\<not> invocation_fails I this (spawned_child this (sendPrompt_args sid options) prompt w) \<longrightarrow>
            (\<exists>r. parsed_output I (spawned_child this (sendPrompt_args sid options) prompt w) = Inr r \<and>
                 fst (sendPrompt I this sid prompt options w) = Resolved (prompt_response I options r)))"
proof -
  let ?ch = "spawned_child this (sendPrompt_args sid options) prompt w"
  let ?res = "fst (sendPrompt I this sid prompt options w)"
  show ?thesis
  proof (cases "invocation_fails I this ?ch")
    case False
    then have st: "has_stdin ?ch" and fc: "\<exists>t. first_completion this ?ch = Some (t, Close (Some 0))"
      and po: "\<exists>r. parsed_output I ?ch = Inr r \<and> \<not> is_error r"
      by (auto simp: invocation_fails_def split: option.splits child_event.splits sum.splits)
    from po obtain r where r: "parsed_output I ?ch = Inr r" "\<not> is_error r" by blast
    from st fc assms have sr: "spawn_result this prompt ?ch = Resolved (received (events ?ch))"
      by (auto simp: spawn_result_def)
    have "?res = Resolved (prompt_response I options r)"
      using r by (simp add: sendPrompt_outcome sr parsed_output_def)
    with False r show ?thesis by simp
  next
    case True
    have "\<exists>e. ?res = Rejected e"
    proof (cases "spawn_result this prompt ?ch")
      case (Resolved oe)
      then have oe: "oe = received (events ?ch)" by (rule spawn_result_Resolved)
      from Resolved have "has_stdin ?ch \<and> (\<exists>t. first_completion this ?ch = Some (t, Close (Some 0)))"
        by (auto simp: spawn_result_def split: option.splits child_event.splits if_splits)
      with True have "case parsed_output I ?ch of Inl e \<Rightarrow> True | Inr r \<Rightarrow> is_error r"
        by (auto simp: invocation_fails_def)
      then show ?thesis
        by (cases "parseClaudeCLIResponse I (fst (received (events ?ch)))")
           (simp_all add: sendPrompt_outcome Resolved oe parsed_output_def)
    next
      case (Rejected e)
      then show ?thesis by (simp add: sendPrompt_outcome)
    next
      case Pending
      then show ?thesis using spawn_result_not_Pending [OF assms] by blast
    qed
    then obtain e where "?res = Rejected e" by blast
    with sendPrompt_rejection_is_Error [of I this sid prompt options w e] True
    show ?thesis by auto
  qed
qed

text \<open>The world after a call in which the process dies.\<close>

lemma emit_process_died [simp]:
  "process_died (emit l m w) = process_died w"
  "process_died (emit_classified l m b w) = process_died w"
  "process_died (log_stderr e a c w) = process_died w"
  by (simp_all add: emit_def emit_classified_def log_stderr_def)

lemma spawnWithStdin_process_died:
  "process_died (snd (spawnWithStdin this args input w)) =
     (process_died w \<or> died (run_child this input (spawned_child this args input w)))"
  by (simp add: spawnWithStdin_def Let_def)

lemma sendPrompt_process_died:
  assumes "died (run_child this prompt (spawned_child this (sendPrompt_args sid options) prompt w))"
  shows "process_died (snd (sendPrompt I this sid prompt options w))"
proof -
  let ?w3 = "emit Debug ''Claude CLI sendPrompt called''
               (emit Info ''SESSION_LIFECYCLE: Using Claude CLI session for prompt''
                  (emit LlmRequest prompt w))"
  let ?w1 = "emit Debug ''Executing Claude CLI command with stdin'' ?w3"
  obtain r w2 where sp: "spawnWithStdin this (sendPrompt_args sid options) prompt ?w1 = (r, w2)"
    by (cases "spawnWithStdin this (sendPrompt_args sid options) prompt ?w1")
  have "process_died w2"
    using spawnWithStdin_process_died [of this "sendPrompt_args sid options" prompt ?w1] sp assms
    by simp
  then have "process_died (snd (sendPrompt_try I this sid prompt options ?w3))"
    unfolding sendPrompt_try_def Let_def sp
    by (simp split: outcome.splits sum.splits prod.splits)
  then show ?thesis
    by (cases "sendPrompt_try I this sid prompt options ?w3")
       (simp add: sendPrompt_def Let_def split: outcome.splits)
qed

text \<open>The definitions a run in one of the small worlds unfolds.\<close>

lemmas example_defs =
  example_imported_def example_adapter_def example_world_def prints_def hangs_def exits_with_def
  closes_at_def echoes_session_id_def plain_options_def plain_session_options_def

lemmas child_defs =
  spawned_child_def first_completion_def before_timer_def timer_delay_def is_completion_def
  received_def parsed_output_def invocation_fails_def write_unfinished_def pipe_minimum_def

lemmas lower_defs =
  toLowerCase.simps toLowerCase_char_def kelvin_sign_def capital_I_dotted_def small_i_dotted_def

subsection \<open>Classification of errors\<close>

lemma status_code_texts:
  "Number_toString HTTP_TOO_MANY_REQUESTS = ''429''"
  "Number_toString HTTP_BAD_GATEWAY = ''502''"
  "Number_toString HTTP_SERVICE_UNAVAILABLE = ''503''"
  "Number_toString HTTP_GATEWAY_TIMEOUT = ''504''"
  "Number_toString HTTP_UNAUTHORIZED = ''401''"
  by (simp_all add: Number_toString.simps digit_char_def HTTP_TOO_MANY_REQUESTS_def
        HTTP_BAD_GATEWAY_def HTTP_SERVICE_UNAVAILABLE_def HTTP_GATEWAY_TIMEOUT_def
        HTTP_UNAUTHORIZED_def)

text \<open>
  The classifier answers \<open>True\<close> exactly for the \<open>Error\<close> values whose lowercased message
  contains one of the markers.
\<close>

lemma isRetryableError_markers:
  "isRetryableError (Error m) \<longleftrightarrow> (\<exists>k \<in> set retryableMarkers. str_includes (toLowerCase m) k)"
  by (simp add: isRetryableError_def Let_def status_code_texts retryableMarkers_def)

lemma isRetryableError_marker:
  "k \<in> set retryableMarkers \<Longrightarrow> str_includes (toLowerCase m) k \<Longrightarrow> isRetryableError (Error m)"
  using isRetryableError_markers by blast

text \<open>
  Claim C2. An error whose message indicates an authentication failure (\<open>unauthorized\<close>,
  \<open>authentication\<close> or \<open>401\<close>), an invalid model (\<open>model\<close> and \<open>not found\<close>) or a response that
  is too large (\<open>ENOBUFS\<close> or \<open>maxBuffer\<close>), and whose lowercased message contains none
  of the retryable markers, is not retryable for \<open>isRetryableError\<close>.
\<close>

theorem fatal_without_marker_not_retryable:
  assumes "indicates_fatal m"
      and "\<forall>k \<in> set retryableMarkers. \<not> str_includes (toLowerCase m) k"
  shows "isRetryableError (Error m) = False"
  using assms(2) isRetryableError_markers by blast

lemma lower_examples:
  "toLowerCase ''401 unauthorized'' = ''401 unauthorized''"
  "toLowerCase ''model xyz not found'' = ''model xyz not found''"
  "toLowerCase ''stdout maxBuffer length exceeded'' = ''stdout maxbuffer length exceeded''"
  by (simp_all add: lower_defs)

theorem fatal_without_marker_not_retryable_witness:
  "indicates_fatal ''401 unauthorized'' \<and> isRetryableError (Error ''401 unauthorized'') = False \<and>
   indicates_fatal ''model xyz not found'' \<and> isRetryableError (Error ''model xyz not found'') = False \<and>
   indicates_fatal ''stdout maxBuffer length exceeded'' \<and>
   isRetryableError (Error ''stdout maxBuffer length exceeded'') = False"
proof -
  have a: "indicates_fatal ''401 unauthorized''" by (simp add: indicates_fatal_def)
  have a': "\<forall>k \<in> set retryableMarkers. \<not> str_includes (toLowerCase ''401 unauthorized'') k"
    unfolding lower_examples by (simp add: retryableMarkers_def)
  have b: "indicates_fatal ''model xyz not found''" by (simp add: indicates_fatal_def)
  have b': "\<forall>k \<in> set retryableMarkers. \<not> str_includes (toLowerCase ''model xyz not found'') k"
    unfolding lower_examples by (simp add: retryableMarkers_def)
  have c: "indicates_fatal ''stdout maxBuffer length exceeded''" by (simp add: indicates_fatal_def)
  have c': "\<forall>k \<in> set retryableMarkers. \<not> str_includes (toLowerCase ''stdout maxBuffer length exceeded'') k"
    unfolding lower_examples by (simp add: retryableMarkers_def)
  show ?thesis
    using fatal_without_marker_not_retryable [OF a a'] fatal_without_marker_not_retryable [OF b b']
      fatal_without_marker_not_retryable [OF c c'] a b c
    by blast
qed

lemma timeout_text: "Number_toString 30000 = ''30000''"
  by (simp add: Number_toString.simps digit_char_def)

lemma timeout_message_lower:
  "toLowerCase ''Claude CLI command timed out after 30000ms'' = ''claude cli command timed out after 30000ms''"
  by (simp add: lower_defs)

lemma timeout_message_no_marker:
  "\<forall>k \<in> set retryableMarkers. \<not> str_includes ''claude cli command timed out after 30000ms'' k"
  by (simp add: retryableMarkers_def)

text \<open>
  Claim C1, at the adapter's own timeout. With a timeout of 30000 ms and a child that never
  finishes, \<open>spawnWithStdin\<close> rejects with the message
  \<open>Claude CLI command timed out after 30000ms\<close>, and \<open>isRetryableError\<close> answers \<open>False\<close> for
  it: the message says \<open>timed out\<close>, the classifier looks for \<open>timeout\<close>.
\<close>

theorem own_timeout_error_not_retryable:
  "fst (spawnWithStdin example_adapter [''--output-format'', ''json''] ''hi'' (example_world hangs)) =
     Rejected (Error ''Claude CLI command timed out after 30000ms'') \<and>
   isRetryableError (Error ''Claude CLI command timed out after 30000ms'') = False"
proof -
  have "fst (spawnWithStdin example_adapter [''--output-format'', ''json''] ''hi'' (example_world hangs)) =
     Rejected (Error ''Claude CLI command timed out after 30000ms'')"
    by (simp add: spawnWithStdin_fst spawn_result_def child_defs example_defs timeout_error_def
          timeout_text)
  moreover have "isRetryableError (Error ''Claude CLI command timed out after 30000ms'') = False"
    using timeout_message_no_marker
    by (simp only: isRetryableError_markers timeout_message_lower) blast
  ultimately show ?thesis by blast
qed


subsection \<open>A prompt the child does not read\<close>

text \<open>A child that exits with code 2, its stdin unread.\<close>

lemma exits_with_2:
  "has_stdin (exits_with 2 h)"
  "first_completion example_adapter (exits_with 2 h) = Some (7, Close (Some 2))"
  "received (events (exits_with 2 h)) = ([], ''boom'')"
  "write_unfinished (exits_with 2 h) input \<longleftrightarrow> 65536 < length input"
  by (simp_all add: first_completion_def before_timer_def timer_delay_def is_completion_def
        received_def write_unfinished_def pipe_minimum_def exits_with_def example_adapter_def)

lemma exit_2_message:
  "close_error_message (Some 2) input ''boom'' = ''Claude CLI command failed with exit code 2: boom''"
  by (simp add: close_error_message_def exit_code_text_def Number_toString.simps digit_char_def)

lemma exit_2_enhanced:
  "enhanceError example_adapter (Error ''Claude CLI command failed with exit code 2: boom'')
     ''Failed to send prompt to Claude CLI'' =
   Error ''Failed to send prompt to Claude CLI: Claude CLI command failed with exit code 2: boom''"
  by (simp add: enhanceError_def status_code_texts)

lemma prompt_rejected:
  assumes "spawn_oracle w = exits_with 2" and "length prompt \<le> 65536"
  shows "fst (sendPrompt example_imported example_adapter sid prompt options w) =
   Rejected (Error ''Failed to send prompt to Claude CLI: Claude CLI command failed with exit code 2: boom'')"
proof -
  have "spawn_result example_adapter prompt
          (spawned_child example_adapter (sendPrompt_args sid options) prompt w) =
        Rejected (Error (close_error_message (Some 2) prompt ''boom''))"
    using assms by (simp add: spawn_result_def spawned_child_def exits_with_2)
  then show ?thesis
    by (simp add: sendPrompt_outcome exit_2_message exit_2_enhanced)
qed

text \<open>
  Claim C5, at a prompt that the child does not read. The prompt has 70000 bytes, the pipe
  takes 65536, and the child exits with code 2 without reading its stdin: the \<open>error\<close> of
  the stdin stream, for which \<open>spawnWithStdin\<close> has no listener, ends the process, and the
  promise of \<open>sendPrompt\<close> is neither rejected nor resolved. With a short prompt the same
  child makes \<open>sendPrompt\<close> reject.
\<close>

theorem unread_prompt_ends_the_process:
  "fst (sendPrompt example_imported example_adapter None (replicate 70000 (CHR ''x'')) plain_options
          (example_world (exits_with 2))) = Pending \<and>
   process_died (snd (sendPrompt example_imported example_adapter None (replicate 70000 (CHR ''x''))
                        plain_options (example_world (exits_with 2)))) = True \<and>
   fst (sendPrompt example_imported example_adapter None ''hi'' plain_options
          (example_world (exits_with 2))) =
     Rejected (Error ''Failed to send prompt to Claude CLI: Claude CLI command failed with exit code 2: boom'')"
proof -
  let ?big = "replicate 70000 (CHR ''x'')"
  let ?w = "example_world (exits_with 2)"
  have ch: "spawned_child example_adapter (sendPrompt_args None plain_options) ?big ?w =
              exits_with 2 [Spawn ''claude'' (sendPrompt_args None plain_options) ?big]"
    by (simp add: spawned_child_def example_world_def example_adapter_def)
  have unf: "write_unfinished (exits_with 2 h) ?big" for h
    by (simp add: exits_with_2)
  have 1: "fst (sendPrompt example_imported example_adapter None ?big plain_options ?w) = Pending"
    unfolding sendPrompt_Pending_iff ch by (simp add: spawn_result_def exits_with_2)
  have "died (run_child example_adapter ?big
                (exits_with 2 [Spawn ''claude'' (sendPrompt_args None plain_options) ?big]))"
    using run_child_completion(2) [OF exits_with_2(1) exits_with_2(2), of _ ?big] unf by blast
  then have 2: "process_died (snd (sendPrompt example_imported example_adapter None ?big
                                     plain_options ?w))"
    using sendPrompt_process_died [of example_adapter ?big None plain_options ?w example_imported]
    by (simp only: ch)
  have 3: "fst (sendPrompt example_imported example_adapter None ''hi'' plain_options ?w) =
     Rejected (Error ''Failed to send prompt to Claude CLI: Claude CLI command failed with exit code 2: boom'')"
    by (rule prompt_rejected) (simp_all add: example_world_def)
  from 1 2 3 show ?thesis by simp
qed

subsection \<open>What a call leaves of the world\<close>

lemma emit_frame [simp]:
  "history (emit l m w) = history w"
  "spawn_oracle (emit l m w) = spawn_oracle w"
  "exec_oracle (emit l m w) = exec_oracle w"
  "uuid_source (emit l m w) = uuid_source w"
  "uuid_count (emit l m w) = uuid_count w"
  "now (emit l m w) = now w"
  "kills (emit l m w) = kills w"
  by (simp_all add: emit_def)

lemma emit_classified_frame [simp]:
  "history (emit_classified l m r w) = history w"
  "now (emit_classified l m r w) = now w"
  "kills (emit_classified l m r w) = kills w"
  by (simp_all add: emit_classified_def)

lemma log_stderr_frame [simp]:
  "history (log_stderr e a b w) = history w"
  "spawn_oracle (log_stderr e a b w) = spawn_oracle w"
  "exec_oracle (log_stderr e a b w) = exec_oracle w"
  "uuid_source (log_stderr e a b w) = uuid_source w"
  "uuid_count (log_stderr e a b w) = uuid_count w"
  by (simp_all add: log_stderr_def)

lemma classifications_emit [simp]:
  "classifications (emit l m w) = classifications w"
  "classifications (emit_classified l m r w) = classifications w @ [r]"
  by (simp_all add: classifications_def emit_def emit_classified_def List.map_filter_def)

lemma spawned_child_cong:
  "spawn_oracle w' = spawn_oracle w \<Longrightarrow> history w' = history w \<Longrightarrow>
   spawned_child this args input w' = spawned_child this args input w"
  by (simp add: spawned_child_def)

lemma spawnWithStdin_frame:
  "history (snd (spawnWithStdin this args input w)) = history w @ [Spawn (binary this) args input]"
  "spawn_oracle (snd (spawnWithStdin this args input w)) = spawn_oracle w"
  "exec_oracle (snd (spawnWithStdin this args input w)) = exec_oracle w"
  "uuid_source (snd (spawnWithStdin this args input w)) = uuid_source w"
  "uuid_count (snd (spawnWithStdin this args input w)) = uuid_count w"
  by (simp_all add: spawnWithStdin_def Let_def)

subsection \<open>The per-call deadline\<close>

lemma timer_delay_le: "timer_delay t \<le> max t 1"
  by (simp add: timer_delay_def)

lemma first_completion_None:
  assumes "misses_deadline this ch"
  shows "first_completion this ch = None"
proof -
  from assms have late: "\<forall>te \<in> set (events ch). is_completion (snd te) \<longrightarrow> timeout this < fst te"
    by (simp add: misses_deadline_def list_all_iff)
  have "\<not> is_completion (snd te)" if "te \<in> set (takeWhile (before_timer this) (events ch))" for te
  proof
    assume c: "is_completion (snd te)"
    from that have "te \<in> set (events ch)" and "before_timer this te"
      by (auto dest: set_takeWhileD)
    with late c have "timeout this < fst te" and "fst te < timer_delay (timeout this)"
      by (auto simp: before_timer_def)
    then show False using timer_delay_le [of "timeout this"] by simp
  qed
  then show ?thesis by (auto simp: first_completion_def find_None_iff)
qed

lemma spawnWithStdin_timeout:
  assumes "misses_deadline this (spawned_child this args input w)"
  shows "fst (spawnWithStdin this args input w) = Rejected (timeout_error this)"
    and "kills (snd (spawnWithStdin this args input w)) = kills w @ [length (history w)]"
    and "now (snd (spawnWithStdin this args input w)) = now w + timer_delay (timeout this)"
    and "classifications (snd (spawnWithStdin this args input w)) = classifications w"
proof -
  let ?ch = "spawned_child this args input w"
  have st: "has_stdin ?ch" using assms by (simp add: misses_deadline_def)
  have fc: "first_completion this ?ch = None" using assms by (rule first_completion_None)
  show "fst (spawnWithStdin this args input w) = Rejected (timeout_error this)"
    using st fc by (simp add: spawnWithStdin_fst spawn_result_def)
  show "kills (snd (spawnWithStdin this args input w)) = kills w @ [length (history w)]"
    and "now (snd (spawnWithStdin this args input w)) = now w + timer_delay (timeout this)"
    and "classifications (snd (spawnWithStdin this args input w)) = classifications w"
    using run_child_timeout [OF st fc, of input]
    by (simp_all add: spawnWithStdin_def Let_def classifications_def)
qed






subsection \<open>validateSession and destroySession\<close>

lemma validateSession_fst:
  "fst (validateSession I this sid w) =
     (case sendPrompt I this (Some sid) validation_probe probe_options
             (emit Info ''SESSION_VALIDATION: Testing session health'' w) of
        (Pending, w2) \<Rightarrow> Pending
      | (Resolved r, w2) \<Rightarrow>
          Resolved \<lparr>valid = str_includes (toLowerCase (content r)) ''ok'', error = None,
                    responseTime = Some (now w2 - now w)\<rparr>
      | (Rejected e, w2) \<Rightarrow>
          Resolved \<lparr>valid = False, error = Some (message_or_unknown e),
                    responseTime = Some (now w2 - now w)\<rparr>)"
  by (simp add: validateSession_def Let_def split: prod.splits outcome.splits)

text \<open>The two probe prompts are short: a pipe takes each of them at once.\<close>

lemma probes_are_short:
  "length validation_probe \<le> pipe_minimum"
  "length health_probe \<le> pipe_minimum"
  by (simp_all add: validation_probe_def health_probe_def pipe_minimum_def)

text \<open>
  Claim C4. When the probe prompt of \<open>validateSession\<close> succeeds with response \<open>r\<close>, the
  call resolves with no \<open>error\<close> field, and \<open>valid\<close> holds exactly when the content of \<open>r\<close>
  contains \<open>ok\<close> in any mix of upper and lower case: an \<open>o\<close> or \<open>O\<close> followed at once by
  \<open>k\<close>, \<open>K\<close> or the Kelvin sign, the one other character that JavaScript lowers to \<open>k\<close>.
\<close>

theorem validateSession_valid_iff_ok:
  assumes "fst (sendPrompt I this (Some sid) validation_probe probe_options
                  (emit Info ''SESSION_VALIDATION: Testing session health'' w)) = Resolved r"
  shows "\<exists>v. fst (validateSession I this sid w) = Resolved v \<and> error v = None \<and>
             (valid v \<longleftrightarrow>
                (\<exists>u z c d. content r = u @ [c] @ d @ z \<and>
                   (c = CHR ''o'' \<or> c = CHR ''O'') \<and>
                   (d = ''k'' \<or> d = ''K'' \<or> d = kelvin_sign)))"
proof -
  obtain x w2 where sp: "sendPrompt I this (Some sid) validation_probe probe_options
             (emit Info ''SESSION_VALIDATION: Testing session health'' w) = (x, w2)"
    by (cases "sendPrompt I this (Some sid) validation_probe probe_options
             (emit Info ''SESSION_VALIDATION: Testing session health'' w)")
  with assms have x: "x = Resolved r" by simp
  have "fst (validateSession I this sid w) =
          Resolved \<lparr>valid = str_includes (toLowerCase (content r)) ''ok'', error = None,
                    responseTime = Some (now w2 - now w)\<rparr>"
    by (simp add: validateSession_fst sp x)
  then show ?thesis by (simp add: includes_ok_iff)
qed

text \<open>
  Claim C7. \<open>validateSession\<close> never rejects and never stays pending: it resolves to a
  record, and when the probe call throws \<open>e\<close> the record has \<open>valid = False\<close> and the
  message of \<open>e\<close> as its \<open>error\<close>.
\<close>

theorem validateSession_never_rejects:
  "\<exists>v. fst (validateSession I this sid w) = Resolved v \<and>
       (\<forall>e. fst (sendPrompt I this (Some sid) validation_probe probe_options
                    (emit Info ''SESSION_VALIDATION: Testing session health'' w)) = Rejected e \<longrightarrow>
            valid v = False \<and> error v = Some (message e))"
proof -
  let ?w1 = "emit Info ''SESSION_VALIDATION: Testing session health'' w"
  obtain x w2 where sp: "sendPrompt I this (Some sid) validation_probe probe_options ?w1 = (x, w2)"
    by (cases "sendPrompt I this (Some sid) validation_probe probe_options ?w1")
  have np: "x \<noteq> Pending"
    using sendPrompt_not_Pending [OF probes_are_short(1), of I this "Some sid" probe_options ?w1] sp
    by simp
  show ?thesis
  proof (cases x)
    case (Resolved r)
    then show ?thesis by (simp add: validateSession_fst sp)
  next
    case (Rejected e)
    then obtain m where "e = Error (''Failed to send prompt to Claude CLI: '' @ m)"
      using sendPrompt_rejection_is_Error [of I this "Some sid" validation_probe probe_options ?w1 e] sp
      by auto
    with Rejected show ?thesis by (simp add: validateSession_fst sp message_or_unknown_def)
  next
    case Pending
    with np show ?thesis by simp
  qed
qed

text \<open>
  Claim C9. \<open>destroySession\<close> resolves, and the world after it is the world before with
  two log entries added: no process is started or killed, and the UUID source and the
  clock are as they were. The adapter object is read-only throughout.
\<close>

theorem destroySession_only_logs:
  "destroySession this sid w =
     (Resolved (),
      w\<lparr>logs := logs w @ [(Debug, ''Destroying Claude CLI session'', None),
                          (Info, ''Claude CLI session destroyed'', None)]\<rparr>) \<and>
   history (snd (destroySession this sid w)) = history w \<and>
   kills (snd (destroySession this sid w)) = kills w \<and>
   uuid_count (snd (destroySession this sid w)) = uuid_count w \<and>
   now (snd (destroySession this sid w)) = now w"
  by (simp add: destroySession_def emit_def Let_def)

subsection \<open>Runs of validateSession\<close>

lemma example_prompt_resolves:
  "out \<noteq> [] \<Longrightarrow> take 1 out \<noteq> ''!'' \<Longrightarrow> spawn_oracle w = prints out \<Longrightarrow>
   length prompt \<le> pipe_minimum \<Longrightarrow>
   fst (sendPrompt example_imported example_adapter sid prompt options w) =
     Resolved (prompt_response example_imported options
                 \<lparr>is_error = False, session_id = out, total_cost_usd = None\<rparr>)"
  by (simp add: sendPrompt_outcome spawn_result_def child_defs example_imported_def
        example_adapter_def prints_def)

lemma example_content:
  "content (prompt_response example_imported options
              \<lparr>is_error = False, session_id = out, total_cost_usd = None\<rparr>) = out"
  by (simp add: prompt_response_def example_imported_def)

lemma example_validation:
  assumes "out \<noteq> []" and "take 1 out \<noteq> ''!''"
  shows "fst (sendPrompt example_imported example_adapter (Some ''s1'') validation_probe probe_options
             (emit Info ''SESSION_VALIDATION: Testing session health'' (example_world (prints out)))) =
           Resolved (prompt_response example_imported probe_options
                 \<lparr>is_error = False, session_id = out, total_cost_usd = None\<rparr>)"
  by (rule example_prompt_resolves [OF assms _ probes_are_short(1)]) (simp add: example_world_def)

lemma ok_examples:
  "str_includes (toLowerCase ''Okay'') ''ok''"
  "\<not> str_includes (toLowerCase ''fine'') ''ok''"
  "str_includes (toLowerCase (CHR ''O'' # kelvin_sign)) ''ok''"
  by (simp_all add: lower_defs)

theorem validateSession_valid_iff_ok_witness:
  "map_option valid (resolved_value (fst (validateSession example_imported example_adapter ''s1''
       (example_world (prints ''Okay''))))) = Some True \<and>
   map_option valid (resolved_value (fst (validateSession example_imported example_adapter ''s1''
       (example_world (prints ''fine''))))) = Some False \<and>
   map_option valid (resolved_value (fst (validateSession example_imported example_adapter ''s1''
       (example_world (prints (CHR ''O'' # kelvin_sign)))))) = Some True"
proof -
  have 1: "fst (sendPrompt example_imported example_adapter (Some ''s1'') validation_probe probe_options
             (emit Info ''SESSION_VALIDATION: Testing session health'' (example_world (prints ''Okay'')))) =
           Resolved (prompt_response example_imported probe_options
                 \<lparr>is_error = False, session_id = ''Okay'', total_cost_usd = None\<rparr>)"
    by (rule example_validation) simp_all
  have 2: "fst (sendPrompt example_imported example_adapter (Some ''s1'') validation_probe probe_options
             (emit Info ''SESSION_VALIDATION: Testing session health'' (example_world (prints ''fine'')))) =
           Resolved (prompt_response example_imported probe_options
                 \<lparr>is_error = False, session_id = ''fine'', total_cost_usd = None\<rparr>)"
    by (rule example_validation) simp_all
  have 3: "fst (sendPrompt example_imported example_adapter (Some ''s1'') validation_probe probe_options
             (emit Info ''SESSION_VALIDATION: Testing session health''
                (example_world (prints (CHR ''O'' # kelvin_sign))))) =
           Resolved (prompt_response example_imported probe_options
                 \<lparr>is_error = False, session_id = CHR ''O'' # kelvin_sign, total_cost_usd = None\<rparr>)"
    by (rule example_validation) simp_all
  from validateSession_valid_iff_ok [OF 1]
  obtain v where v: "fst (validateSession example_imported example_adapter ''s1''
       (example_world (prints ''Okay''))) = Resolved v"
    and "valid v \<longleftrightarrow> (\<exists>u z c d. ''Okay'' = u @ [c] @ d @ z \<and>
                   (c = CHR ''o'' \<or> c = CHR ''O'') \<and> (d = ''k'' \<or> d = ''K'' \<or> d = kelvin_sign))"
    unfolding example_content by blast
  then have "valid v" unfolding includes_ok_iff [symmetric] by (simp add: ok_examples)
  with v have a: "map_option valid (resolved_value (fst (validateSession example_imported example_adapter ''s1''
       (example_world (prints ''Okay''))))) = Some True"
    by (simp add: resolved_value_def)
  from validateSession_valid_iff_ok [OF 2]
  obtain v' where v': "fst (validateSession example_imported example_adapter ''s1''
       (example_world (prints ''fine''))) = Resolved v'"
    and "valid v' \<longleftrightarrow> (\<exists>u z c d. ''fine'' = u @ [c] @ d @ z \<and>
                   (c = CHR ''o'' \<or> c = CHR ''O'') \<and> (d = ''k'' \<or> d = ''K'' \<or> d = kelvin_sign))"
    unfolding example_content by blast
  then have "\<not> valid v'" unfolding includes_ok_iff [symmetric] by (simp add: ok_examples)
  with v' have b: "map_option valid (resolved_value (fst (validateSession example_imported example_adapter ''s1''
       (example_world (prints ''fine''))))) = Some False"
    by (simp add: resolved_value_def)
  from validateSession_valid_iff_ok [OF 3]
  obtain v'' where v'': "fst (validateSession example_imported example_adapter ''s1''
       (example_world (prints (CHR ''O'' # kelvin_sign)))) = Resolved v''"
    and "valid v'' \<longleftrightarrow> (\<exists>u z c d. CHR ''O'' # kelvin_sign = u @ [c] @ d @ z \<and>
                   (c = CHR ''o'' \<or> c = CHR ''O'') \<and> (d = ''k'' \<or> d = ''K'' \<or> d = kelvin_sign))"
    unfolding example_content by blast
  then have "valid v''" unfolding includes_ok_iff [symmetric] by (simp add: ok_examples)
  with v'' have c: "map_option valid (resolved_value (fst (validateSession example_imported example_adapter ''s1''
       (example_world (prints (CHR ''O'' # kelvin_sign)))))) = Some True"
    by (simp add: resolved_value_def)
  from a b c show ?thesis by blast
qed

theorem validateSession_never_rejects_witness:
  "map_option valid (resolved_value (fst (validateSession example_imported example_adapter ''s1''
       (example_world (exits_with 2))))) = Some False \<and>
   map_option error (resolved_value (fst (validateSession example_imported example_adapter ''s1''
       (example_world (exits_with 2))))) =
     Some (Some ''Failed to send prompt to Claude CLI: Claude CLI command failed with exit code 2: boom'')"
proof -
  have "fst (sendPrompt example_imported example_adapter (Some ''s1'') validation_probe
               (probe_options :: nat ProviderPromptOptions)
               (emit Info ''SESSION_VALIDATION: Testing session health'' (example_world (exits_with 2)))) =
        Rejected (Error ''Failed to send prompt to Claude CLI: Claude CLI command failed with exit code 2: boom'')"
    by (rule prompt_rejected) (simp_all add: example_world_def validation_probe_def)
  with validateSession_never_rejects [of example_imported example_adapter "''s1''"
         "example_world (exits_with 2)"]
  show ?thesis by (auto simp: resolved_value_def)
qed

subsection \<open>createSession\<close>

lemma createSession_try_fst:
  "fst (createSession_try I this uuid context options w) =
     (case spawn_result this (contextWithOptions I context options)
             (spawned_child this (createSession_args uuid options)
                (contextWithOptions I context options) w) of
        Pending \<Rightarrow> Pending
      | Rejected e \<Rightarrow> Rejected e
      | Resolved oe \<Rightarrow>
          (case parseClaudeCLIResponse I (fst oe) of
             Inl e \<Rightarrow> Rejected e
           | Inr r \<Rightarrow>
               if is_error r then
                 Rejected (Error (''Failed to create session: '' @ extractContentFromResponse I r))
               else Resolved (session_id r)))"
proof -
  let ?inp = "contextWithOptions I context options"
  obtain r w1 where sp: "spawnWithStdin this (createSession_args uuid options) ?inp w = (r, w1)"
    by (cases "spawnWithStdin this (createSession_args uuid options) ?inp w")
  have r: "r = spawn_result this ?inp (spawned_child this (createSession_args uuid options) ?inp w)"
    using spawnWithStdin_fst [of this "createSession_args uuid options" ?inp w] sp by simp
  show ?thesis
    unfolding createSession_try_def Let_def sp r [symmetric]
    by (simp split: outcome.splits sum.splits prod.splits)
qed

lemma createSession_try_frame:
  "history (snd (createSession_try I this uuid context options w)) =
     history w @ [Spawn (binary this) (createSession_args uuid options) (contextWithOptions I context options)]"
  "spawn_oracle (snd (createSession_try I this uuid context options w)) = spawn_oracle w"
  "uuid_source (snd (createSession_try I this uuid context options w)) = uuid_source w"
  "uuid_count (snd (createSession_try I this uuid context options w)) = uuid_count w"
proof -
  let ?inp = "contextWithOptions I context options"
  obtain r w1 where sp: "spawnWithStdin this (createSession_args uuid options) ?inp w = (r, w1)"
    by (cases "spawnWithStdin this (createSession_args uuid options) ?inp w")
  have w1: "history w1 = history w @ [Spawn (binary this) (createSession_args uuid options) ?inp]"
    "spawn_oracle w1 = spawn_oracle w" "uuid_source w1 = uuid_source w" "uuid_count w1 = uuid_count w"
    using spawnWithStdin_frame [of this "createSession_args uuid options" ?inp w] sp by simp_all
  show "history (snd (createSession_try I this uuid context options w)) =
     history w @ [Spawn (binary this) (createSession_args uuid options) ?inp]"
    unfolding createSession_try_def Let_def sp
    by (simp add: w1 split: outcome.splits sum.splits prod.splits)
  show "spawn_oracle (snd (createSession_try I this uuid context options w)) = spawn_oracle w"
    unfolding createSession_try_def Let_def sp
    by (simp add: w1 split: outcome.splits sum.splits prod.splits)
  show "uuid_source (snd (createSession_try I this uuid context options w)) = uuid_source w"
    unfolding createSession_try_def Let_def sp
    by (simp add: w1 split: outcome.splits sum.splits prod.splits)
  show "uuid_count (snd (createSession_try I this uuid context options w)) = uuid_count w"
    unfolding createSession_try_def Let_def sp
    by (simp add: w1 split: outcome.splits sum.splits prod.splits)
qed

lemma session_start_frame [simp]:
  "history (session_start w) = history w"
  "spawn_oracle (session_start w) = spawn_oracle w"
  "uuid_source (session_start w) = uuid_source w"
  "uuid_count (session_start w) = Suc (uuid_count w)"
  by (simp_all add: session_start_def)

lemma classifications_session_start [simp]:
  "classifications (session_start w) = classifications w"
  by (simp add: session_start_def, simp add: classifications_def)

lemma createSession_unfold:
  "createSession I this context options w =
     (case createSession_try I this (uuid_source w (uuid_count w)) context options (session_start w) of
        (Rejected e, w4) \<Rightarrow>
          (Rejected (enhanceError this e ''Failed to create Claude CLI session''),
           emit LogError ''SESSION_LIFECYCLE: Claude CLI session creation failed'' w4)
      | (Resolved v, w4) \<Rightarrow> (Resolved v, w4)
      | (Pending, w4) \<Rightarrow> (Pending, w4))"
  by (simp add: createSession_def randomUUID_def session_start_def Let_def
           split: prod.splits outcome.splits)

lemma createSession_frame:
  "history (snd (createSession I this context options w)) =
     history w @ [Spawn (binary this) (createSession_args (uuid_source w (uuid_count w)) options)
                    (contextWithOptions I context options)]"
  "spawn_oracle (snd (createSession I this context options w)) = spawn_oracle w"
  "uuid_source (snd (createSession I this context options w)) = uuid_source w"
  "uuid_count (snd (createSession I this context options w)) = Suc (uuid_count w)"
proof -
  let ?u = "uuid_source w (uuid_count w)"
  obtain r w4 where tr: "createSession_try I this ?u context options (session_start w) = (r, w4)"
    by (cases "createSession_try I this ?u context options (session_start w)")
  have w4: "history w4 = history w @ [Spawn (binary this) (createSession_args ?u options)
                    (contextWithOptions I context options)]"
    "spawn_oracle w4 = spawn_oracle w" "uuid_source w4 = uuid_source w"
    "uuid_count w4 = Suc (uuid_count w)"
    using createSession_try_frame [of I this ?u "context" options "session_start w"] tr by simp_all
  show "history (snd (createSession I this context options w)) =
     history w @ [Spawn (binary this) (createSession_args ?u options)
                    (contextWithOptions I context options)]"
    and "spawn_oracle (snd (createSession I this context options w)) = spawn_oracle w"
    and "uuid_source (snd (createSession I this context options w)) = uuid_source w"
    and "uuid_count (snd (createSession I this context options w)) = Suc (uuid_count w)"
    by (cases r; simp add: createSession_unfold tr w4)+
qed

lemma createSession_outcome:
  "fst (createSession I this context options w) =
     (case spawn_result this (contextWithOptions I context options)
             (spawned_child this (createSession_args (uuid_source w (uuid_count w)) options)
                (contextWithOptions I context options) w) of
        Pending \<Rightarrow> Pending
      | Rejected e \<Rightarrow> Rejected (enhanceError this e ''Failed to create Claude CLI session'')
      | Resolved oe \<Rightarrow>
          (case parseClaudeCLIResponse I (fst oe) of
             Inl e \<Rightarrow> Rejected (enhanceError this e ''Failed to create Claude CLI session'')
           | Inr r \<Rightarrow>
               if is_error r then
                 Rejected (enhanceError this
                   (Error (''Failed to create session: '' @ extractContentFromResponse I r))
                   ''Failed to create Claude CLI session'')
               else Resolved (session_id r)))"
proof -
  let ?u = "uuid_source w (uuid_count w)"
  let ?inp = "contextWithOptions I context options"
  have ch: "spawned_child this (createSession_args ?u options) ?inp (session_start w) =
            spawned_child this (createSession_args ?u options) ?inp w"
    by (rule spawned_child_cong) simp_all
  obtain r w4 where tr: "createSession_try I this ?u context options (session_start w) = (r, w4)"
    by (cases "createSession_try I this ?u context options (session_start w)")
  have r: "r = fst (createSession_try I this ?u context options (session_start w))"
    by (simp add: tr)
  show ?thesis
    unfolding createSession_unfold tr
    by (simp add: r createSession_try_fst ch split: outcome.splits sum.splits)
qed

lemma session_id_given_args:
  "session_id_given (Spawn b (createSession_args u options) input) = Some u"
  by (simp add: session_id_given_def createSession_args_def)

text \<open>What a resolved \<open>createSession\<close> returns.\<close>

lemma createSession_resolved:
  assumes "fst (createSession I this context options w) = Resolved sid"
  shows "\<exists>r. parsed_output I
               (spawned_child this (createSession_args (uuid_source w (uuid_count w)) options)
                  (contextWithOptions I context options) w) = Inr r \<and>
             \<not> is_error r \<and> sid = session_id r"
proof -
  let ?inp = "contextWithOptions I context options"
  let ?ch = "spawned_child this (createSession_args (uuid_source w (uuid_count w)) options) ?inp w"
  from assms obtain oe where sr: "spawn_result this ?inp ?ch = Resolved oe"
    by (auto simp: createSession_outcome split: outcome.splits)
  then have oe: "oe = received (events ?ch)" by (rule spawn_result_Resolved)
  from assms sr obtain r where "parseClaudeCLIResponse I (fst oe) = Inr r" "\<not> is_error r"
    "sid = session_id r"
    by (auto simp: createSession_outcome split: sum.splits if_splits)
  then show ?thesis
    by (simp add: parsed_output_def oe)
qed

text \<open>
  The call of \<open>spawnWithStdin\<close> in \<open>createSession\<close> has the same deadline: \<open>createSession\<close>
  rejects with the enhanced timeout error. Its \<open>catch\<close> block does not call
  \<open>isRetryableError\<close>; a failed session creation is not an attempt of the retry loop.
\<close>

lemma createSession_deadline:
  assumes "misses_deadline this
             (spawned_child this (createSession_args (uuid_source w (uuid_count w)) options)
                (contextWithOptions I context options) w)"
  shows "fst (createSession I this context options w) =
           Rejected (enhanceError this (timeout_error this) ''Failed to create Claude CLI session'')"
    and "classifications (snd (createSession I this context options w)) = classifications w"
proof -
  let ?u = "uuid_source w (uuid_count w)"
  let ?inp = "contextWithOptions I context options"
  have ch: "spawned_child this (createSession_args ?u options) ?inp (session_start w) =
            spawned_child this (createSession_args ?u options) ?inp w"
    by (rule spawned_child_cong) simp_all
  have md: "misses_deadline this (spawned_child this (createSession_args ?u options) ?inp (session_start w))"
    using assms by (simp only: ch)
  obtain r w1 where sp: "spawnWithStdin this (createSession_args ?u options) ?inp (session_start w) = (r, w1)"
    by (cases "spawnWithStdin this (createSession_args ?u options) ?inp (session_start w)")
  have r: "r = Rejected (timeout_error this)"
    using spawnWithStdin_timeout(1) [OF md] sp by simp
  have w1: "classifications w1 = classifications w"
    using spawnWithStdin_timeout(4) [OF md] sp by simp
  have tr: "createSession_try I this ?u context options (session_start w) =
              (Rejected (timeout_error this), w1)"
    unfolding createSession_try_def Let_def sp by (simp add: r)
  show "fst (createSession I this context options w) =
           Rejected (enhanceError this (timeout_error this) ''Failed to create Claude CLI session'')"
    by (simp add: createSession_unfold tr)
  show "classifications (snd (createSession I this context options w)) = classifications w"
    by (simp add: createSession_unfold tr w1)
qed

subsection \<open>The identifier createSession returns\<close>

text \<open>
  Claim C10. A successful \<open>createSession\<close> returns the \<open>session_id\<close> of the response parsed
  from the output of the CLI process it spawned, a response without \<open>is_error\<close>; the UUID
  it drew itself is what that process was given after \<open>--session-id\<close>. So the caller's
  identifier is the fresh UUID only where the CLI reports the identifier it was given; the
  witness is a run where the two differ.
\<close>

theorem createSession_returns_reported_session_id:
  assumes "fst (createSession I this context options w) = Resolved sid"
  shows "\<exists>r. parsed_output I
               (spawned_child this (createSession_args (uuid_source w (uuid_count w)) options)
                  (contextWithOptions I context options) w) = Inr r \<and>
             \<not> is_error r \<and> sid = session_id r \<and>
             session_id_given (last (history (snd (createSession I this context options w)))) =
               Some (uuid_source w (uuid_count w))"
  using createSession_resolved [OF assms]
  by (simp add: createSession_frame session_id_given_args)

lemma example_session:
  "out \<noteq> [] \<Longrightarrow> take 1 out \<noteq> ''!'' \<Longrightarrow> spawn_oracle w = prints out \<Longrightarrow>
   length c \<le> pipe_minimum \<Longrightarrow>
   fst (createSession example_imported example_adapter c plain_session_options w) = Resolved out"
  by (simp add: createSession_outcome spawn_result_def child_defs example_imported_def
        example_adapter_def prints_def contextWithOptions_def plain_session_options_def)

theorem createSession_returns_reported_session_id_witness:
  "fst (createSession example_imported example_adapter ''ctx'' plain_session_options
          (example_world (prints ''srv-1''))) = Resolved ''srv-1'' \<and>
   session_id_given
     (last (history (snd (createSession example_imported example_adapter ''ctx'' plain_session_options
                            (example_world (prints ''srv-1'')))))) = Some ''uuid-a''"
proof -
  have 1: "fst (createSession example_imported example_adapter ''ctx'' plain_session_options
          (example_world (prints ''srv-1''))) = Resolved ''srv-1''"
    by (rule example_session) (simp_all add: example_world_def pipe_minimum_def)
  from createSession_returns_reported_session_id [OF 1] 1 show ?thesis
    by (auto simp: example_world_def)
qed

text \<open>
  Claim C3 as stated fails: with a CLI that reports the same session id whatever it is
  given, two consecutive successful calls with the same context return the same
  identifier.
\<close>

theorem createSession_same_id_counterexample:
  "fst (createSession example_imported example_adapter ''ctx'' plain_session_options
          (example_world (prints ''srv-1''))) = Resolved ''srv-1'' \<and>
   fst (createSession example_imported example_adapter ''ctx'' plain_session_options
          (snd (createSession example_imported example_adapter ''ctx'' plain_session_options
                  (example_world (prints ''srv-1''))))) = Resolved ''srv-1''"
proof -
  have 1: "fst (createSession example_imported example_adapter ''ctx'' plain_session_options
          (example_world (prints ''srv-1''))) = Resolved ''srv-1''"
    by (rule example_session) (simp_all add: example_world_def pipe_minimum_def)
  have 2: "fst (createSession example_imported example_adapter ''ctx'' plain_session_options
          (snd (createSession example_imported example_adapter ''ctx'' plain_session_options
                  (example_world (prints ''srv-1''))))) = Resolved ''srv-1''"
    by (rule example_session) (simp_all add: createSession_frame example_world_def pipe_minimum_def)
  from 1 2 show ?thesis by blast
qed

text \<open>
  Claim C3, amended. Two consecutive successful \<open>createSession\<close> calls with the same
  context return two distinct identifiers when \<open>randomUUID\<close> gives two distinct values and
  the CLI process of each call reports, in its output, the session id it was given: the
  identifiers are then the two UUIDs, each drawn by its own call.
\<close>

theorem createSession_fresh_ids:
  assumes "createSession I this context options w = (Resolved id1, w1)"
      and "createSession I this context options w1 = (Resolved id2, w2)"
      and "uuid_source w (uuid_count w) \<noteq> uuid_source w (Suc (uuid_count w))"
      and "reports_given_id I this context options w"
      and "reports_given_id I this context options w1"
  shows "id1 = uuid_source w (uuid_count w) \<and> id2 = uuid_source w (Suc (uuid_count w)) \<and> id1 \<noteq> id2"
proof -
  have w1: "w1 = snd (createSession I this context options w)" using assms(1) by simp
  have u1: "uuid_source w1 = uuid_source w" "uuid_count w1 = Suc (uuid_count w)"
    by (simp_all add: w1 createSession_frame)
  from assms(1) have "fst (createSession I this context options w) = Resolved id1" by simp
  from createSession_resolved [OF this] assms(4)
  have 1: "id1 = uuid_source w (uuid_count w)"
    by (auto simp: reports_given_id_def reported_session_id_def)
  from assms(2) have "fst (createSession I this context options w1) = Resolved id2" by simp
  from createSession_resolved [OF this] assms(5)
  have "id2 = uuid_source w1 (uuid_count w1)"
    by (auto simp: reports_given_id_def reported_session_id_def)
  then have 2: "id2 = uuid_source w (Suc (uuid_count w))" by (simp add: u1)
  from 1 2 assms(3) show ?thesis by simp
qed

lemma echo_reports:
  "spawn_oracle w = echoes_session_id \<Longrightarrow> uuid_source w (uuid_count w) \<noteq> [] \<Longrightarrow>
   reports_given_id example_imported example_adapter c plain_session_options w"
  by (simp add: reports_given_id_def reported_session_id_def parsed_output_def spawned_child_def
        received_def is_completion_def example_imported_def prints_def echoes_session_id_def
        session_id_given_args)

lemma echo_session:
  "spawn_oracle w = echoes_session_id \<Longrightarrow> uuid_source w (uuid_count w) = u \<Longrightarrow>
   u \<noteq> [] \<Longrightarrow> take 1 u \<noteq> ''!'' \<Longrightarrow> length c \<le> pipe_minimum \<Longrightarrow>
   fst (createSession example_imported example_adapter c plain_session_options w) = Resolved u"
  by (simp add: createSession_outcome spawn_result_def child_defs example_imported_def
        example_adapter_def prints_def echoes_session_id_def session_id_given_args
        contextWithOptions_def plain_session_options_def)

theorem createSession_fresh_ids_witness:
  "fst (createSession example_imported example_adapter ''ctx'' plain_session_options
          (example_world echoes_session_id)) = Resolved ''uuid-a'' \<and>
   fst (createSession example_imported example_adapter ''ctx'' plain_session_options
          (snd (createSession example_imported example_adapter ''ctx'' plain_session_options
                  (example_world echoes_session_id)))) = Resolved ''uuid-b'' \<and>
   reports_given_id example_imported example_adapter ''ctx'' plain_session_options
     (example_world echoes_session_id) \<and>
   reports_given_id example_imported example_adapter ''ctx'' plain_session_options
     (snd (createSession example_imported example_adapter ''ctx'' plain_session_options
             (example_world echoes_session_id))) \<and>
   ''uuid-a'' \<noteq> ''uuid-b''"
proof -
  let ?w = "example_world echoes_session_id"
  let ?w1 = "snd (createSession example_imported example_adapter ''ctx'' plain_session_options ?w)"
  let ?w2 = "snd (createSession example_imported example_adapter ''ctx'' plain_session_options ?w1)"
  have 1: "fst (createSession example_imported example_adapter ''ctx'' plain_session_options ?w) =
             Resolved ''uuid-a''"
    by (rule echo_session) (simp_all add: example_world_def pipe_minimum_def)
  have 2: "fst (createSession example_imported example_adapter ''ctx'' plain_session_options ?w1) =
             Resolved ''uuid-b''"
    by (rule echo_session) (simp_all add: createSession_frame example_world_def pipe_minimum_def)
  have c1: "createSession example_imported example_adapter ''ctx'' plain_session_options ?w =
              (Resolved ''uuid-a'', ?w1)"
    using 1 by (simp add: prod_eq_iff)
  have c2: "createSession example_imported example_adapter ''ctx'' plain_session_options ?w1 =
              (Resolved ''uuid-b'', ?w2)"
    using 2 by (simp add: prod_eq_iff)
  have d: "uuid_source ?w (uuid_count ?w) \<noteq> uuid_source ?w (Suc (uuid_count ?w))"
    by (simp add: example_world_def)
  have g1: "reports_given_id example_imported example_adapter ''ctx'' plain_session_options ?w"
    by (rule echo_reports) (simp_all add: example_world_def)
  have g2: "reports_given_id example_imported example_adapter ''ctx'' plain_session_options ?w1"
    by (rule echo_reports) (simp_all add: createSession_frame example_world_def)
  from createSession_fresh_ids [OF c1 c2 d g1 g2] have "''uuid-a'' \<noteq> ''uuid-b''" by blast
  with 1 2 g1 g2 show ?thesis by blast
qed

subsection \<open>getHealth\<close>

lemma execAsync_frame [simp]:
  "spawn_oracle (snd (execAsync c w)) = spawn_oracle w"
  "history (snd (execAsync c w)) = history w @ [Exec c]"
  by (simp_all add: execAsync_def Let_def split: prod.splits)

lemma isAvailable_resolves: "\<exists>b. fst (isAvailable this w) = Resolved b"
  by (auto simp: isAvailable_def Let_def split: prod.splits sum.splits outcome.splits)

lemma getHealth_try_fst:
  "fst (getHealth_try I this t0 w) =
     (case isAvailable this w of
        (Pending, w1) \<Rightarrow> Pending
      | (Rejected e, w1) \<Rightarrow> Rejected e
      | (Resolved available, w1) \<Rightarrow>
          if \<not> available then
            Resolved \<lparr>healthy = False, checkedAt = now w1, responseTimeMs = now w1 - t0,
                      health_error = Some ''Claude CLI not found or not responding'',
                      details = \<lparr>details_binary = binary this, details_timeout = Some (timeout this),
                                 details_testResponse = None, details_error = None\<rparr>\<rparr>
          else
            (case sendPrompt I this None health_probe probe_options w1 of
               (Pending, w2) \<Rightarrow> Pending
             | (Rejected e, w2) \<Rightarrow> Rejected e
             | (Resolved r, w2) \<Rightarrow>
                 Resolved \<lparr>healthy = True, checkedAt = now w2, responseTimeMs = now w2 - t0,
                           health_error = None,
                           details = \<lparr>details_binary = binary this, details_timeout = None,
                                      details_testResponse = Some (substring0 100 (content r)),
                                      details_error = None\<rparr>\<rparr>))"
  by (simp add: getHealth_try_def Let_def split: prod.splits outcome.splits)

lemma getHealth_resolved:
  "fst (getHealth_try I this (now w) w) = Resolved h \<Longrightarrow> fst (getHealth I this w) = Resolved h"
  by (cases "getHealth_try I this (now w) w") (simp add: getHealth_def Let_def)

lemma getHealth_rejected:
  "fst (getHealth_try I this (now w) w) = Rejected e \<Longrightarrow>
   map_option health_error (resolved_value (fst (getHealth I this w))) = Some (Some (message_or_unknown e))"
  by (cases "getHealth_try I this (now w) w") (simp add: getHealth_def Let_def resolved_value_def)

lemma getHealth_try_now:
  "fst (getHealth_try I this t0 w) = Resolved h \<Longrightarrow>
   responseTimeMs h = now (snd (getHealth_try I this t0 w)) - t0"
  by (auto simp: getHealth_try_def Let_def split: prod.splits outcome.splits if_splits)

text \<open>
  Claim C8, amended. \<open>getHealth\<close> never rejects and never stays pending. It reports
  \<open>healthy = True\<close> exactly when \<open>isAvailable\<close> answers true and the probe call (the prompt
  \<open>Say "OK"\<close>, no session, \<open>maxTokens\<close> 10, \<open>temperature\<close> 0) resolves, whatever the content
  of the response; then there is no error description. On any failure it resolves to
  \<open>healthy = False\<close> with an error description. In both cases \<open>responseTimeMs\<close> is the time
  the call took.
\<close>

theorem getHealth_resolves:
  "\<exists>h. fst (getHealth I this w) = Resolved h \<and>
       (healthy h \<longleftrightarrow>
          fst (isAvailable this w) = Resolved True \<and>
          (\<exists>r. fst (sendPrompt I this None health_probe probe_options (snd (isAvailable this w))) =
                 Resolved r)) \<and>
       (healthy h \<longrightarrow> health_error h = None) \<and>
       (\<not> healthy h \<longrightarrow> (\<exists>m. health_error h = Some m)) \<and>
       responseTimeMs h = now (snd (getHealth I this w)) - now w"
proof -
  obtain ra w1 where av: "isAvailable this w = (ra, w1)" by (cases "isAvailable this w")
  obtain b where ra: "ra = Resolved b" using isAvailable_resolves [of this w] av by auto
  obtain rp w2 where sp: "sendPrompt I this None health_probe probe_options w1 = (rp, w2)"
    by (cases "sendPrompt I this None health_probe probe_options w1")
  have np: "rp \<noteq> Pending"
    using sendPrompt_not_Pending [OF probes_are_short(2), of I this None probe_options w1] sp by simp
  obtain x w' where tr: "getHealth_try I this (now w) w = (x, w')"
    by (cases "getHealth_try I this (now w) w")
  have x: "x = fst (getHealth_try I this (now w) w)" by (simp add: tr)
  have w': "w' = snd (getHealth_try I this (now w) w)" by (simp add: tr)
  have gh: "getHealth I this w =
     (case x of
        Rejected e \<Rightarrow>
          (Resolved \<lparr>healthy = False, checkedAt = now w', responseTimeMs = now w' - now w,
                 health_error = Some (message_or_unknown e),
                 details = \<lparr>details_binary = binary this, details_timeout = None,
                            details_testResponse = None, details_error = Some e\<rparr>\<rparr>, w')
      | _ \<Rightarrow> (x, w'))"
    by (simp add: getHealth_def Let_def tr)
  show ?thesis
  proof (cases b)
    case False
    then have "x = Resolved \<lparr>healthy = False, checkedAt = now w1, responseTimeMs = now w1 - now w,
                      health_error = Some ''Claude CLI not found or not responding'',
                      details = \<lparr>details_binary = binary this, details_timeout = Some (timeout this),
                                 details_testResponse = None, details_error = None\<rparr>\<rparr>"
      by (simp add: x getHealth_try_fst av ra)
    moreover from this have "responseTimeMs (\<lparr>healthy = False, checkedAt = now w1, responseTimeMs = now w1 - now w,
                      health_error = Some ''Claude CLI not found or not responding'',
                      details = \<lparr>details_binary = binary this, details_timeout = Some (timeout this),
                                 details_testResponse = None, details_error = None\<rparr>\<rparr>) = now w' - now w"
      using getHealth_try_now [of I this "now w" w] by (simp add: x [symmetric] w' [symmetric])
    ultimately show ?thesis using False by (simp add: gh av ra)
  next
    case True
    show ?thesis
    proof (cases rp)
      case (Resolved r)
      then have xr: "x = Resolved \<lparr>healthy = True, checkedAt = now w2, responseTimeMs = now w2 - now w,
                           health_error = None,
                           details = \<lparr>details_binary = binary this, details_timeout = None,
                                      details_testResponse = Some (substring0 100 (content r)),
                                      details_error = None\<rparr>\<rparr>"
        using True by (simp add: x getHealth_try_fst av ra sp)
      moreover from this have "now w2 - now w = now w' - now w"
        using getHealth_try_now [of I this "now w" w] by (simp add: x [symmetric] w' [symmetric])
      ultimately show ?thesis using True Resolved by (simp add: gh av ra sp)
    next
      case (Rejected e)
      then have "x = Rejected e" using True by (simp add: x getHealth_try_fst av ra sp)
      then show ?thesis using True Rejected by (simp add: gh av ra sp)
    next
      case Pending
      with np show ?thesis by simp
    qed
  qed
qed


lemma isAvailable_frame:
  "spawn_oracle (snd (isAvailable this w)) = spawn_oracle w"
proof -
  obtain r1 w1 where e1: "execAsync (''which '' @ binary this) w = (r1, w1)"
    by (cases "execAsync (''which '' @ binary this) w")
  obtain r2 w2 where e2: "execAsync (binary this @ '' --version'') w1 = (r2, w2)"
    by (cases "execAsync (binary this @ '' --version'') w1")
  have "spawn_oracle w1 = spawn_oracle w"
    using execAsync_frame(1) [of _ w] e1 by (metis snd_conv)
  moreover have "spawn_oracle w2 = spawn_oracle w1"
    using execAsync_frame(1) [of _ w1] e2 by (metis snd_conv)
  ultimately show ?thesis
    unfolding isAvailable_def Let_def e1
    by (simp add: e2 split: prod.splits sum.splits outcome.splits)
qed

lemma example_available:
  "exec_oracle w = (\<lambda>h. (3, Inr (''/usr/bin/claude'', []))) \<Longrightarrow>
   fst (isAvailable example_adapter w) = Resolved True"
  by (simp add: isAvailable_def execAsync_def Let_def example_adapter_def trim_def is_whitespace_def
        lower_defs)

lemma example_health_probe:
  "out \<noteq> [] \<Longrightarrow> take 1 out \<noteq> ''!'' \<Longrightarrow> spawn_oracle w = prints out \<Longrightarrow>
   fst (sendPrompt example_imported example_adapter None health_probe probe_options w) =
     Resolved (prompt_response example_imported probe_options
                 \<lparr>is_error = False, session_id = out, total_cost_usd = None\<rparr>)"
  by (rule example_prompt_resolves [OF _ _ _ probes_are_short(2)])

text \<open>
  Claim C8 as stated fails: where the CLI is available and answers the probe with \<open>no\<close>,
  a content without \<open>ok\<close> in any case, \<open>getHealth\<close> still reports \<open>healthy = True\<close>. The
  content is only copied into the details.
\<close>

theorem getHealth_ignores_content_counterexample:
  "map_option healthy (resolved_value (fst (getHealth example_imported example_adapter
       (example_world (prints ''no''))))) = Some True \<and>
   map_option content (resolved_value (fst (sendPrompt example_imported example_adapter None
       health_probe probe_options
       (snd (isAvailable example_adapter (example_world (prints ''no''))))))) = Some ''no'' \<and>
   \<not> str_includes (toLowerCase ''no'') ''ok''"
proof -
  let ?w = "example_world (prints ''no'')"
  have av: "fst (isAvailable example_adapter ?w) = Resolved True"
    by (rule example_available) (simp add: example_world_def)
  have pr: "fst (sendPrompt example_imported example_adapter None health_probe probe_options
                   (snd (isAvailable example_adapter ?w))) =
            Resolved (prompt_response example_imported probe_options
                 \<lparr>is_error = False, session_id = ''no'', total_cost_usd = None\<rparr>)"
    by (rule example_health_probe) (simp_all add: isAvailable_frame example_world_def)
  obtain ra w1 where a: "isAvailable example_adapter ?w = (ra, w1)"
    by (cases "isAvailable example_adapter ?w")
  obtain rp w2 where p: "sendPrompt example_imported example_adapter None health_probe
                           (probe_options :: nat ProviderPromptOptions) w1 = (rp, w2)"
    by (cases "sendPrompt example_imported example_adapter None health_probe
                 (probe_options :: nat ProviderPromptOptions) w1")
  have ra: "ra = Resolved True" using av a by simp
  have rp: "rp = Resolved (prompt_response example_imported probe_options
                 \<lparr>is_error = False, session_id = ''no'', total_cost_usd = None\<rparr>)"
    using pr a p by simp
  have "fst (getHealth_try example_imported example_adapter (now ?w) ?w) =
          Resolved \<lparr>healthy = True, checkedAt = now w2, responseTimeMs = now w2 - now ?w,
                    health_error = None,
                    details = \<lparr>details_binary = binary example_adapter, details_timeout = None,
                               details_testResponse = Some ''no'', details_error = None\<rparr>\<rparr>"
    by (simp add: getHealth_try_fst a ra p rp example_content utf16_units_def)
  then have 1: "map_option healthy (resolved_value (fst (getHealth example_imported example_adapter ?w))) =
               Some True"
    by (simp add: getHealth_resolved resolved_value_def)
  have 2: "map_option content (resolved_value (fst (sendPrompt example_imported example_adapter None
       health_probe probe_options (snd (isAvailable example_adapter ?w))))) = Some ''no''"
    by (simp add: pr resolved_value_def example_content)
  have 3: "\<not> str_includes (toLowerCase ''no'') ''ok''"
    by (simp add: lower_defs)
  from 1 2 3 show ?thesis by blast
qed

theorem getHealth_resolves_witness:
  "map_option healthy (resolved_value (fst (getHealth example_imported example_adapter
       (example_world (prints ''no''))))) = Some True \<and>
   map_option healthy (resolved_value (fst (getHealth example_imported example_adapter
       (example_world (exits_with 2))))) = Some False \<and>
   map_option health_error (resolved_value (fst (getHealth example_imported example_adapter
       (example_world (exits_with 2))))) =
     Some (Some ''Failed to send prompt to Claude CLI: Claude CLI command failed with exit code 2: boom'')"
proof -
  let ?w = "example_world (prints ''no'')"
  let ?v = "example_world (exits_with 2)"
  have av: "fst (isAvailable example_adapter ?w) = Resolved True"
    by (rule example_available) (simp add: example_world_def)
  have pr: "fst (sendPrompt example_imported example_adapter None health_probe probe_options
                   (snd (isAvailable example_adapter ?w))) =
            Resolved (prompt_response example_imported probe_options
                 \<lparr>is_error = False, session_id = ''no'', total_cost_usd = None\<rparr>)"
    by (rule example_health_probe) (simp_all add: isAvailable_frame example_world_def)
  from getHealth_resolves [of example_imported example_adapter ?w] av pr
  have 1: "map_option healthy (resolved_value (fst (getHealth example_imported example_adapter ?w))) =
             Some True"
    by (auto simp: resolved_value_def)
  have av': "fst (isAvailable example_adapter ?v) = Resolved True"
    by (rule example_available) (simp add: example_world_def)
  have pr': "fst (sendPrompt example_imported example_adapter None health_probe
                         (probe_options :: nat ProviderPromptOptions)
                         (snd (isAvailable example_adapter ?v))) =
     Rejected (Error ''Failed to send prompt to Claude CLI: Claude CLI command failed with exit code 2: boom'')"
    by (rule prompt_rejected) (simp_all add: isAvailable_frame example_world_def health_probe_def)
  obtain ra w1 where a: "isAvailable example_adapter ?v = (ra, w1)"
    by (cases "isAvailable example_adapter ?v")
  obtain rp w2 where p: "sendPrompt example_imported example_adapter None health_probe
                           (probe_options :: nat ProviderPromptOptions) w1 = (rp, w2)"
    by (cases "sendPrompt example_imported example_adapter None health_probe
                 (probe_options :: nat ProviderPromptOptions) w1")
  have ra: "ra = Resolved True" using av' a by simp
  have rp: "rp = Rejected (Error ''Failed to send prompt to Claude CLI: Claude CLI command failed with exit code 2: boom'')"
    using pr' a p by simp
  have "fst (getHealth_try example_imported example_adapter (now ?v) ?v) =
          Rejected (Error ''Failed to send prompt to Claude CLI: Claude CLI command failed with exit code 2: boom'')"
    by (simp add: getHealth_try_fst a ra p rp)
  then have 3: "map_option health_error (resolved_value (fst (getHealth example_imported example_adapter ?v))) =
     Some (Some ''Failed to send prompt to Claude CLI: Claude CLI command failed with exit code 2: boom'')"
    using getHealth_rejected [of example_imported example_adapter ?v]
    by (simp add: message_or_unknown_def)
  from getHealth_resolves [of example_imported example_adapter ?v] pr'
  have 2: "map_option healthy (resolved_value (fst (getHealth example_imported example_adapter ?v))) =
             Some False"
    by (auto simp: resolved_value_def)
  from 1 2 3 show ?thesis by blast
qed

end
